theory Spec2Isabelle
  imports Main "HOL-Library.AList" "HOL-Library.Word"
begin

section \<open>JavaScript values\<close>

text \<open>
  The source is JavaScript. The fields of an employee object and of a form state hold
  primitive values; the model has the primitives the code can tell apart: \<open>undefined\<close>,
  \<open>null\<close>, booleans, numbers and strings. A number is \<open>NaN\<close> or an integer from
  \<open>-2^53\<close> to \<open>2^53 - 1\<close>, held as a signed word of 54 bits (\<open>JNum w\<close> is the number
  \<open>sint w\<close>): these are integers that a double holds exactly and that JavaScript prints
  in plain decimal notation. Other numbers (fractions, larger magnitudes, the
  infinities) are not values of the model; \<open>-0\<close> is not told apart from \<open>0\<close>. A
  string is a list of code units; a \<open>char\<close> stands for the code unit with the same
  number, so the strings of the model are the JavaScript strings over the code units
  U+0000 .. U+00FF.
\<close>

datatype jsval =
    JUndefined
  | JNull
  | JBool bool
  | JNum "54 word"
  | JNaN
  | JStr string

text \<open>ToBoolean: what \<open>!x\<close>, \<open>x || y\<close>, \<open>x && y\<close> and \<open>if (x)\<close> test.\<close>

fun truthy :: "jsval \<Rightarrow> bool" where
  "truthy JUndefined = False"
| "truthy JNull = False"
| "truthy (JBool b) = b"
| "truthy (JNum n) = (n \<noteq> 0)"
| "truthy JNaN = False"
| "truthy (JStr s) = (s \<noteq> [])"

text \<open>\<open>a || b\<close>: the left operand when it is truthy, the right operand otherwise.\<close>

definition js_or :: "jsval \<Rightarrow> jsval \<Rightarrow> jsval" where
  "js_or a b = (if truthy a then a else b)"

text \<open>What a \<open>catch\<close> block of the code can receive.\<close>

datatype thrown =
    TypeError
  | NullishRejection
  | ErrorRejection

text \<open>
  \<open>TypeError\<close> is raised by the runtime (a property of \<open>null\<close> or \<open>undefined\<close> is
  read, or something that is not a function is called). The other two are what a call of
  the SDK can throw or reject with: \<open>null\<close> or \<open>undefined\<close>
  (\<open>NullishRejection\<close>), or any other value, such as an \<open>Error\<close> object
  (\<open>ErrorRejection\<close>).
\<close>

datatype 'a completion = Returns 'a | Throws thrown

subsection \<open>Strings\<close>

text \<open>
  The white space of \<open>String.prototype.trim\<close>, of \<open>parseInt\<close> and of the class
  \<open>\s\<close> of a regular expression, among the code units below U+0100: tab, line feed,
  vertical tab, form feed, carriage return, space and no-break space.
\<close>

definition is_ws :: "char \<Rightarrow> bool" where
  "is_ws c = (of_char c \<in> {9, 10, 11, 12, 13, 32, 160 :: nat})"

definition trim :: "string \<Rightarrow> string" where
  "trim s = rev (dropWhile is_ws (rev (dropWhile is_ws s)))"

text \<open>\<open>s.split(sep)\<close> for a separator of one code unit: never the empty list.\<close>

fun split :: "char \<Rightarrow> string \<Rightarrow> string list" where
  "split sep [] = [[]]"
| "split sep (c # cs) =
     (let r = split sep cs in if c = sep then [] # r else (c # hd r) # tl r)"

text \<open>\<open>xs.join(sep)\<close>\<close>

fun join :: "string \<Rightarrow> string list \<Rightarrow> string" where
  "join sep [] = []"
| "join sep [x] = x"
| "join sep (x # y # ys) = x @ sep @ join sep (y # ys)"

text \<open>\<open>xs.slice(1)\<close>\<close>

definition slice1 :: "'a list \<Rightarrow> 'a list" where
  "slice1 xs = drop 1 xs"

text \<open>\<open>xs[0]\<close> on an array of strings: \<open>undefined\<close> on the empty array.\<close>

definition index0 :: "string list \<Rightarrow> jsval" where
  "index0 xs = (case xs of [] \<Rightarrow> JUndefined | x # _ \<Rightarrow> JStr x)"

subsection \<open>Numbers and strings\<close>

definition digit_char :: "nat \<Rightarrow> char" where
  "digit_char d = char_of (48 + d)"

function show_nat :: "nat \<Rightarrow> string" where
  "show_nat n = (if n < 10 then [digit_char n] else show_nat (n div 10) @ [digit_char (n mod 10)])"
  by pat_completeness auto
termination
  by (relation "measure id") auto

declare show_nat.simps [simp del]

definition show_int :: "int \<Rightarrow> string" where
  "show_int i = (if i < 0 then CHR ''-'' # show_nat (nat (- i)) else show_nat (nat i))"

text \<open>ToString, as a template literal \<open>`${x}`\<close> and \<open>parseInt\<close> apply it.\<close>

fun to_string :: "jsval \<Rightarrow> string" where
  "to_string JUndefined = ''undefined''"
| "to_string JNull = ''null''"
| "to_string (JBool b) = (if b then ''true'' else ''false'')"
| "to_string (JNum n) = show_int (sint n)"
| "to_string JNaN = ''NaN''"
| "to_string (JStr s) = s"

text \<open>
  What \<open>parseInt\<close> returns. The digits it reads denote an integer of any size, and the
  result is the Number for that integer: the integer itself up to magnitude \<open>2^53\<close>
  (\<open>Integer\<close>); beyond that (\<open>Rounded n\<close>) the double that the engine makes of \<open>n\<close>,
  which is \<open>n\<close> rounded (an engine may also read the digits after the twentieth as
  zeros) and is an infinity when \<open>n\<close> is beyond the doubles. \<open>Rounded n\<close> names that
  double by the integer that was read; it need not be equal to it.
\<close>

datatype number = NaN | Integer int | Rounded int

definition number_of :: "bool \<Rightarrow> int \<Rightarrow> number" where
  "number_of negative n =
     (let i = (if negative then - n else n)
      in if n \<le> 2 ^ 53 then Integer i else Rounded i)"

text \<open>
  \<open>parseInt(x)\<close> with no radix: ToString, leading white space skipped, an optional sign,
  an optional \<open>0x\<close> or \<open>0X\<close> selecting radix 16 (radix 10 otherwise), then the longest
  run of digits of the radix; \<open>NaN\<close> when that run is empty.
\<close>

definition digit_val :: "char \<Rightarrow> nat option" where
  "digit_val c =
     (let k = (of_char c :: nat) in
      if 48 \<le> k \<and> k \<le> 57 then Some (k - 48)
      else if 97 \<le> k \<and> k \<le> 102 then Some (k - 87)
      else if 65 \<le> k \<and> k \<le> 70 then Some (k - 55)
      else None)"

definition is_digit :: "nat \<Rightarrow> char \<Rightarrow> bool" where
  "is_digit radix c = (case digit_val c of None \<Rightarrow> False | Some d \<Rightarrow> d < radix)"

definition digits_value :: "nat \<Rightarrow> string \<Rightarrow> int" where
  "digits_value radix ds = foldl (\<lambda>acc c. acc * int radix + int (the (digit_val c))) 0 ds"

definition parse_digits :: "nat \<Rightarrow> string \<Rightarrow> int option" where
  "parse_digits radix s =
     (let z = takeWhile (is_digit radix) s in
      if z = [] then None else Some (digits_value radix z))"

definition parse_unsigned :: "string \<Rightarrow> int option" where
  "parse_unsigned s =
     (case s of
        c # x # rest \<Rightarrow>
          if c = CHR ''0'' \<and> (x = CHR ''x'' \<or> x = CHR ''X'') then parse_digits 16 rest
          else parse_digits 10 s
      | _ \<Rightarrow> parse_digits 10 s)"

definition parseInt_string :: "string \<Rightarrow> number" where
  "parseInt_string str =
     (let s = dropWhile is_ws str in
      case s of
        [] \<Rightarrow> NaN
      | c # rest \<Rightarrow>
          if c = CHR ''-'' then
            (case parse_unsigned rest of None \<Rightarrow> NaN | Some n \<Rightarrow> number_of True n)
          else if c = CHR ''+'' then
            (case parse_unsigned rest of None \<Rightarrow> NaN | Some n \<Rightarrow> number_of False n)
          else
            (case parse_unsigned s of None \<Rightarrow> NaN | Some n \<Rightarrow> number_of False n))"

definition parseInt :: "jsval \<Rightarrow> number" where
  "parseInt v = parseInt_string (to_string v)"

section \<open>Objects\<close>

text \<open>
  An object with primitive properties is the list of its own properties in insertion
  order. Reading a property that is not there gives \<open>undefined\<close>.
\<close>

type_synonym obj = "(string \<times> jsval) list"

definition get :: "obj \<Rightarrow> string \<Rightarrow> jsval" where
  "get ob k = (case map_of ob k of None \<Rightarrow> JUndefined | Some v \<Rightarrow> v)"

text \<open>A place that holds an object or an array, or \<open>null\<close>, or nothing.\<close>

datatype 'a js = Undef | Null | Obj 'a

section \<open>The record store\<close>

text \<open>
  The SDK's contract as the code consumes it: each call resolves to
  \<open>{success, message?, data?, results?: [{success, data?, errors?, message?}]}\<close>
  (or to nothing), or rejects. \<open>results\<close> and \<open>errors\<close> are only tested for
  presence and iterated, so an absent one is \<open>None\<close>.
\<close>

record error_entry =
  fieldLabel :: jsval
  message :: jsval

record result =
  success :: bool
  data :: "obj js"
  errors :: "error_entry list option"
  message :: jsval

datatype payload = Row obj | Rows "obj list"

record response =
  success :: bool
  message :: jsval
  data :: "payload js"
  results :: "result list option"

text \<open>
  The record that create and update send: the properties of the object literal in
  \<open>params.records\<close>. \<open>department_id_c\<close> holds what \<open>parseInt\<close> returned; update
  sends the \<open>Id\<close> with it.
\<close>

record employee_c =
  Name :: jsval
  first_name_c :: jsval
  last_name_c :: jsval
  email_c :: jsval
  phone_c :: jsval
  role_c :: jsval
  department_id_c :: number
  hire_date_c :: jsval
  status_c :: jsval
  avatar_c :: jsval

datatype request =
    FetchRecords string "string list"
  | GetRecordById string jsval "string list"
  | CreateRecord string "employee_c list"
  | UpdateRecord string "(jsval \<times> employee_c) list"
  | DeleteRecord string "jsval list"

type_synonym client = "request \<Rightarrow> response option completion"

text \<open>
  \<open>toast.error(x)\<close>, \<open>toast.success(x)\<close>, and the form's
  \<open>toast.error(error.message || "Failed to save employee")\<close> for a caught error (the
  text of a runtime error's message is the engine's).
\<close>

datatype toast = ToastError jsval | ToastSuccess jsval | ToastCaught thrown

text \<open>
  What the service reads and changes: \<open>window.ApperSDK\<close> (the client its constructor
  would make, when the SDK is loaded), the service's \<open>apperClient\<close>, the requests
  sent to the store so far, and the toasts shown so far. Output to the console is not
  part of the model.
\<close>

record world =
  windowApperSDK :: "client option"
  apperClient :: "client option"
  sent :: "request list"
  toasts :: "toast list"

definition tableName :: string where
  "tableName = ''employee_c''"

definition initializeClient :: "world \<Rightarrow> world" where
  "initializeClient w =
     (case windowApperSDK w of
        Some c \<Rightarrow> w\<lparr>apperClient := Some c\<rparr>
      | None \<Rightarrow> w)"

text \<open>\<open>if (!this.apperClient) this.initializeClient();\<close>\<close>

definition ensureClient :: "world \<Rightarrow> world" where
  "ensureClient w = (case apperClient w of None \<Rightarrow> initializeClient w | Some _ \<Rightarrow> w)"

text \<open>
  \<open>await this.apperClient.method(...)\<close>: a \<open>TypeError\<close> when \<open>apperClient\<close> is
  still \<open>null\<close>, the client's answer to the request otherwise.
\<close>

definition invoke :: "world \<Rightarrow> request \<Rightarrow> response option completion \<times> world" where
  "invoke w rq =
     (case apperClient w of
        None \<Rightarrow> (Throws TypeError, w)
      | Some c \<Rightarrow> (c rq, w\<lparr>sent := sent w @ [rq]\<rparr>))"

definition toast_error :: "jsval \<Rightarrow> world \<Rightarrow> world" where
  "toast_error m w = w\<lparr>toasts := toasts w @ [ToastError m]\<rparr>"

text \<open>
  Every \<open>catch (error)\<close> block of the service: it logs
  \<open>error?.response?.data?.message\<close> when that is truthy and \<open>error.message\<close>
  otherwise, then returns the sentinel. Reading \<open>error.message\<close> of a \<open>null\<close> or
  \<open>undefined\<close> error raises a \<open>TypeError\<close> inside the block, which leaves the
  function.
\<close>

definition catch_block :: "thrown \<Rightarrow> 'a \<Rightarrow> 'a completion" where
  "catch_block e sentinel =
     (case e of NullishRejection \<Rightarrow> Throws TypeError | _ \<Rightarrow> Returns sentinel)"

definition employee_fields :: "string list" where
  "employee_fields =
     [''Name'', ''first_name_c'', ''last_name_c'', ''email_c'', ''phone_c'', ''role_c'',
      ''department_id_c'', ''hire_date_c'', ''status_c'', ''avatar_c'']"

subsection \<open>getAll and getById\<close>

definition getAll :: "world \<Rightarrow> payload completion \<times> world" where
  "getAll w0 =
     (let (r, w) = invoke (ensureClient w0) (FetchRecords tableName employee_fields) in
      case r of
        Throws e \<Rightarrow> (catch_block e (Rows []), w)
      | Returns None \<Rightarrow> (catch_block TypeError (Rows []), w)
      | Returns (Some resp) \<Rightarrow>
          if \<not> response.success resp then
            (Returns (Rows []), toast_error (response.message resp) w)
          else
            (Returns (case response.data resp of Obj d \<Rightarrow> d | _ \<Rightarrow> Rows []), w))"

definition getById :: "world \<Rightarrow> jsval \<Rightarrow> payload js completion \<times> world" where
  "getById w0 rid =
     (let (r, w) = invoke (ensureClient w0) (GetRecordById tableName rid employee_fields) in
      case r of
        Throws e \<Rightarrow> (catch_block e Null, w)
      | Returns None \<Rightarrow> (Returns Null, w)
      | Returns (Some resp) \<Rightarrow>
          (case response.data resp of
             Obj d \<Rightarrow> (Returns (Obj d), w)
           | _ \<Rightarrow> (Returns Null, w)))"

subsection \<open>The record sent by create and update\<close>

text \<open>
  \<open>employeeData.fullName?.split(' ')\<close>: the whole optional chain is \<open>undefined\<close>
  when \<open>fullName\<close> is \<open>null\<close> or \<open>undefined\<close>; a string is split; any other
  value has no \<open>split\<close> method, and calling it raises a \<open>TypeError\<close>.
\<close>

definition split_fullName :: "jsval \<Rightarrow> string list option completion" where
  "split_fullName v =
     (case v of
        JUndefined \<Rightarrow> Returns None
      | JNull \<Rightarrow> Returns None
      | JStr s \<Rightarrow> Returns (Some (split CHR '' '' s))
      | _ \<Rightarrow> Throws TypeError)"

definition name_value :: "obj \<Rightarrow> jsval" where
  "name_value employeeData =
     js_or (get employeeData ''fullName'')
       (JStr (trim (to_string (js_or (get employeeData ''first_name_c'') (JStr ''''))
                    @ '' ''
                    @ to_string (js_or (get employeeData ''last_name_c'') (JStr '''')))))"

definition first_name_value :: "obj \<Rightarrow> jsval completion" where
  "first_name_value employeeData =
     (if truthy (get employeeData ''first_name_c'') then Returns (get employeeData ''first_name_c'')
      else case split_fullName (get employeeData ''fullName'') of
        Throws e \<Rightarrow> Throws e
      | Returns None \<Rightarrow> Returns (js_or JUndefined (JStr ''''))
      | Returns (Some parts) \<Rightarrow> Returns (js_or (index0 parts) (JStr '''')))"

definition last_name_value :: "obj \<Rightarrow> jsval completion" where
  "last_name_value employeeData =
     (if truthy (get employeeData ''last_name_c'') then Returns (get employeeData ''last_name_c'')
      else case split_fullName (get employeeData ''fullName'') of
        Throws e \<Rightarrow> Throws e
      | Returns None \<Rightarrow> Returns (js_or JUndefined (JStr ''''))
      | Returns (Some parts) \<Rightarrow>
          Returns (js_or (JStr (join '' '' (slice1 parts))) (JStr '''')))"

text \<open>\<open>employeeData.a || employeeData.b || dflt\<close>\<close>

definition either_field :: "obj \<Rightarrow> string \<Rightarrow> string \<Rightarrow> jsval \<Rightarrow> jsval" where
  "either_field employeeData a b dflt = js_or (js_or (get employeeData a) (get employeeData b)) dflt"

text \<open>
  The object literal that create and update put into \<open>params.records\<close>, property by
  property in the order of the source.
\<close>

definition employee_record :: "obj \<Rightarrow> employee_c completion" where
  "employee_record employeeData =
     (case first_name_value employeeData of
        Throws e \<Rightarrow> Throws e
      | Returns first_name \<Rightarrow>
     (case last_name_value employeeData of
        Throws e \<Rightarrow> Throws e
      | Returns last_name \<Rightarrow>
          Returns
            \<lparr>Name = name_value employeeData,
             first_name_c = first_name,
             last_name_c = last_name,
             email_c = either_field employeeData ''email_c'' ''email'' (JStr ''''),
             phone_c = either_field employeeData ''phone_c'' ''phone'' (JStr ''''),
             role_c = either_field employeeData ''role_c'' ''role'' (JStr ''''),
             department_id_c =
               parseInt (either_field employeeData ''department_id_c'' ''departmentId'' (JNum 0)),
             hire_date_c = either_field employeeData ''hire_date_c'' ''hireDate'' (JStr ''''),
             status_c = either_field employeeData ''status_c'' ''status'' (JStr ''active''),
             avatar_c = either_field employeeData ''avatar_c'' ''avatar'' (JStr '''')\<rparr>))"

subsection \<open>create, update and delete\<close>

text \<open>
  The toasts for one failed entry of \<open>results\<close>: one per entry of \<open>errors\<close>
  (\<open>`${error.fieldLabel}: ${error.message}`\<close>), then the entry's own message when it
  is truthy.
\<close>

definition failed_record_toasts :: "result \<Rightarrow> toast list" where
  "failed_record_toasts r =
     (case result.errors r of
        None \<Rightarrow> []
      | Some es \<Rightarrow>
          map (\<lambda>e. ToastError (JStr (to_string (error_entry.fieldLabel e) @ '': ''
                                          @ to_string (error_entry.message e)))) es)
     @ (if truthy (result.message r) then [ToastError (result.message r)] else [])"

text \<open>What delete shows for a failed entry: only its message.\<close>

definition failed_deletion_toasts :: "result \<Rightarrow> toast list" where
  "failed_deletion_toasts r =
     (if truthy (result.message r) then [ToastError (result.message r)] else [])"

text \<open>
  What create and update do with the answer of the store, from \<open>if (!response.success)\<close>
  to the last \<open>return null\<close> of the \<open>try\<close> block; the two functions have the same
  text there.
\<close>

definition record_response :: "response \<Rightarrow> world \<Rightarrow> obj js completion \<times> world" where
  "record_response resp w =
     (if \<not> response.success resp then
        (Returns Null, toast_error (response.message resp) w)
      else case response.results resp of
        None \<Rightarrow> (Returns Null, w)
      | Some rs \<Rightarrow>
          (let successfulRecords = filter result.success rs;
               failedRecords = filter (\<lambda>r. \<not> result.success r) rs;
               w' = w\<lparr>toasts := toasts w @ concat (map failed_record_toasts failedRecords)\<rparr>
           in (Returns (case successfulRecords of [] \<Rightarrow> Null | s # _ \<Rightarrow> result.data s), w')))"

definition create :: "world \<Rightarrow> obj \<Rightarrow> obj js completion \<times> world" where
  "create w0 employeeData =
     (let w1 = ensureClient w0 in
      case employee_record employeeData of
        Throws e \<Rightarrow> (catch_block e Null, w1)
      | Returns rec \<Rightarrow>
          (let (r, w) = invoke w1 (CreateRecord tableName [rec]) in
           case r of
             Throws e \<Rightarrow> (catch_block e Null, w)
           | Returns None \<Rightarrow> (catch_block TypeError Null, w)
           | Returns (Some resp) \<Rightarrow> record_response resp w))"

definition update_employee :: "world \<Rightarrow> jsval \<Rightarrow> obj \<Rightarrow> obj js completion \<times> world" where
  "update_employee w0 rid employeeData =
     (let w1 = ensureClient w0 in
      case employee_record employeeData of
        Throws e \<Rightarrow> (catch_block e Null, w1)
      | Returns rec \<Rightarrow>
          (let (r, w) = invoke w1 (UpdateRecord tableName [(rid, rec)]) in
           case r of
             Throws e \<Rightarrow> (catch_block e Null, w)
           | Returns None \<Rightarrow> (catch_block TypeError Null, w)
           | Returns (Some resp) \<Rightarrow> record_response resp w))"

definition delete_employee :: "world \<Rightarrow> jsval \<Rightarrow> bool completion \<times> world" where
  "delete_employee w0 rid =
     (let (r, w) = invoke (ensureClient w0) (DeleteRecord tableName [rid]) in
      case r of
        Throws e \<Rightarrow> (catch_block e False, w)
      | Returns None \<Rightarrow> (catch_block TypeError False, w)
      | Returns (Some resp) \<Rightarrow>
          if \<not> response.success resp then
            (Returns False, toast_error (response.message resp) w)
          else
            (case response.results resp of
               None \<Rightarrow> (Returns False, w)
             | Some rs \<Rightarrow>
                 (let successfulDeletions = filter result.success rs;
                      failedDeletions = filter (\<lambda>r. \<not> result.success r) rs;
                      w' = w\<lparr>toasts := toasts w @ concat (map failed_deletion_toasts failedDeletions)\<rparr>
                  in (Returns (length successfulDeletions > 0), w'))))"

section \<open>Regular expressions\<close>

text \<open>
  The form tests the email with \<open>/^[^\s@]+@[^\s@]+\.[^\s@]+$/.test(...)\<close>. The pattern
  uses character classes, literals, concatenation and \<open>+\<close>, and is anchored at both
  ends without the multiline flag, so \<open>test\<close> answers whether the whole string is in
  the language of the pattern. \<open>test\<close> below decides that by derivatives; \<open>lang\<close> is
  the language.
\<close>

datatype rexp =
    Zero
  | One
  | Atom "char \<Rightarrow> bool"
  | Alt rexp rexp
  | Seq rexp rexp
  | Star rexp

definition Plus :: "rexp \<Rightarrow> rexp" where
  "Plus r = Seq r (Star r)"

fun nullable :: "rexp \<Rightarrow> bool" where
  "nullable Zero = False"
| "nullable One = True"
| "nullable (Atom p) = False"
| "nullable (Alt r s) = (nullable r \<or> nullable s)"
| "nullable (Seq r s) = (nullable r \<and> nullable s)"
| "nullable (Star r) = True"

fun deriv :: "char \<Rightarrow> rexp \<Rightarrow> rexp" where
  "deriv c Zero = Zero"
| "deriv c One = Zero"
| "deriv c (Atom p) = (if p c then One else Zero)"
| "deriv c (Alt r s) = Alt (deriv c r) (deriv c s)"
| "deriv c (Seq r s) =
     (if nullable r then Alt (Seq (deriv c r) s) (deriv c s) else Seq (deriv c r) s)"
| "deriv c (Star r) = Seq (deriv c r) (Star r)"

fun test :: "rexp \<Rightarrow> string \<Rightarrow> bool" where
  "test r [] = nullable r"
| "test r (c # cs) = test (deriv c r) cs"

definition conc :: "string set \<Rightarrow> string set \<Rightarrow> string set" where
  "conc A B = {a @ b | a b. a \<in> A \<and> b \<in> B}"

inductive_set star :: "string set \<Rightarrow> string set" for A :: "string set" where
  star_empty: "[] \<in> star A"
| star_step: "a \<in> A \<Longrightarrow> w \<in> star A \<Longrightarrow> a @ w \<in> star A"

fun lang :: "rexp \<Rightarrow> string set" where
  "lang Zero = {}"
| "lang One = {[]}"
| "lang (Atom p) = {[c] | c. p c}"
| "lang (Alt r s) = lang r \<union> lang s"
| "lang (Seq r s) = conc (lang r) (lang s)"
| "lang (Star r) = star (lang r)"

text \<open>\<open>[^\s@]\<close>\<close>

definition not_space_or_at :: "char \<Rightarrow> bool" where
  "not_space_or_at c = (\<not> is_ws c \<and> c \<noteq> CHR ''@'')"

text \<open>\<open>/^[^\s@]+@[^\s@]+\.[^\s@]+$/\<close>\<close>

definition email_regex :: rexp where
  "email_regex =
     Seq (Plus (Atom not_space_or_at))
       (Seq (Atom (\<lambda>c. c = CHR ''@''))
          (Seq (Plus (Atom not_space_or_at))
             (Seq (Atom (\<lambda>c. c = CHR ''.''))
                (Plus (Atom not_space_or_at)))))"

section \<open>The employee form\<close>

text \<open>
  The state of \<open>EmployeeModal\<close>: the draft \<open>formData\<close>, the \<open>loading\<close> flag and the
  \<open>errors\<close> object, with the calls made to the parent's \<open>onSuccess\<close> and \<open>onClose\<close>.
  The list of departments, which comes from another service, is left out.
\<close>

datatype callback = OnSuccess | OnClose

record modal =
  formData :: obj
  loading :: bool
  errors :: obj
  parent_calls :: "callback list"

text \<open>The draft of \<open>useState\<close> and of \<open>handleClose\<close>.\<close>

definition emptyForm :: obj where
  "emptyForm =
     [(''fullName'', JStr ''''), (''email'', JStr ''''), (''phone'', JStr ''''),
      (''role'', JStr ''''), (''departmentId'', JStr ''''), (''hireDate'', JStr ''''),
      (''status'', JStr ''active'')]"

definition initialModal :: modal where
  "initialModal = \<lparr>formData = emptyForm, loading = False, errors = [], parent_calls = []\<rparr>"

text \<open>
  \<open>handleChange\<close>: \<open>{...prev, [name]: value}\<close> keeps the place of a property that is
  already there and appends a new one; an error shown for the field is blanked.
\<close>

definition handleChange :: "string \<Rightarrow> string \<Rightarrow> modal \<Rightarrow> modal" where
  "handleChange name val m =
     (let m1 = m\<lparr>formData := AList.update name (JStr val) (formData m)\<rparr> in
      if truthy (get (modal.errors m) name)
      then m1\<lparr>errors := AList.update name (JStr '''') (modal.errors m)\<rparr>
      else m1)"

text \<open>\<open>x.trim()\<close>: only a string has the method.\<close>

definition trim_method :: "jsval \<Rightarrow> string completion" where
  "trim_method v = (case v of JStr s \<Rightarrow> Returns (trim s) | _ \<Rightarrow> Throws TypeError)"

definition and_then :: "'a completion \<Rightarrow> ('a \<Rightarrow> 'b completion) \<Rightarrow> 'b completion" where
  "and_then r f = (case r of Throws e \<Rightarrow> Throws e | Returns x \<Rightarrow> f x)"

text \<open>\<open>if (!formData.field.trim()) newErrors.field = msg;\<close>\<close>

definition require_text :: "obj \<Rightarrow> string \<Rightarrow> string \<Rightarrow> obj \<Rightarrow> obj completion" where
  "require_text fd field msg newErrors =
     and_then (trim_method (get fd field))
       (\<lambda>t. Returns (if t = [] then AList.update field (JStr msg) newErrors else newErrors))"

text \<open>\<open>if (!formData.field) newErrors.field = msg;\<close>\<close>

definition require_value :: "obj \<Rightarrow> string \<Rightarrow> string \<Rightarrow> obj \<Rightarrow> obj" where
  "require_value fd field msg newErrors =
     (if \<not> truthy (get fd field) then AList.update field (JStr msg) newErrors else newErrors)"

text \<open>\<open>RegExp.prototype.test\<close> applies ToString to its argument.\<close>

definition check_email :: "obj \<Rightarrow> obj \<Rightarrow> obj" where
  "check_email fd newErrors =
     (if truthy (get fd ''email'') \<and> \<not> test email_regex (to_string (get fd ''email''))
      then AList.update ''email'' (JStr ''Please enter a valid email address'') newErrors
      else newErrors)"

definition validation_errors :: "obj \<Rightarrow> obj completion" where
  "validation_errors fd =
     and_then (require_text fd ''fullName'' ''Full name is required'' []) (\<lambda>e1.
     and_then (require_text fd ''email'' ''Email is required'' e1) (\<lambda>e2.
     and_then (require_text fd ''phone'' ''Phone is required'' e2) (\<lambda>e3.
     and_then (require_text fd ''role'' ''Role is required'' e3) (\<lambda>e4.
     Returns (check_email fd
       (require_value fd ''hireDate'' ''Hire date is required''
         (require_value fd ''departmentId'' ''Department is required'' e4)))))))"

text \<open>
  \<open>validateForm\<close>: \<open>setErrors(newErrors)\<close>, and the answer
  \<open>Object.keys(newErrors).length === 0\<close>.
\<close>

definition validateForm :: "modal \<Rightarrow> (bool \<times> modal) completion" where
  "validateForm m =
     and_then (validation_errors (formData m))
       (\<lambda>newErrors. Returns (length (map fst newErrors) = 0, m\<lparr>errors := newErrors\<rparr>))"

text \<open>
  \<open>handleSubmit\<close>, for the \<open>employee\<close> property of the component. An exception of
  \<open>validateForm\<close> leaves the function; one of the service call is caught and shown.
\<close>

definition handleSubmit :: "obj js \<Rightarrow> world \<Rightarrow> modal \<Rightarrow> unit completion \<times> world \<times> modal" where
  "handleSubmit employee w m =
     (case validateForm m of
        Throws e \<Rightarrow> (Throws e, w, m)
      | Returns (valid, m1) \<Rightarrow>
          if \<not> valid then (Returns (), w, m1)
          else
            (let m2 = m1\<lparr>loading := True\<rparr>;
                 (saved, w1) =
                   (case employee of
                      Obj emp \<Rightarrow> update_employee w (get emp ''Id'') (formData m2)
                    | _ \<Rightarrow> create w (formData m2))
             in case saved of
                  Returns _ \<Rightarrow>
                    (Returns (),
                     w1\<lparr>toasts := toasts w1 @
                        [ToastSuccess (JStr (case employee of
                            Obj _ \<Rightarrow> ''Employee updated successfully''
                          | _ \<Rightarrow> ''Employee created successfully''))]\<rparr>,
                     m2\<lparr>parent_calls := parent_calls m2 @ [OnSuccess, OnClose],
                        loading := False\<rparr>)
                | Throws e \<Rightarrow>
                    (Returns (), w1\<lparr>toasts := toasts w1 @ [ToastCaught e]\<rparr>,
                     m2\<lparr>loading := False\<rparr>)))"

definition handleClose :: "modal \<Rightarrow> modal" where
  "handleClose m =
     m\<lparr>formData := emptyForm, errors := [], parent_calls := parent_calls m @ [OnClose]\<rparr>"

section \<open>Stating the properties\<close>

text \<open>
  What the awaited call of the SDK yields for a request, in a world: the outcome of
  \<open>invoke\<close> after the lazy initialisation that opens every operation.
\<close>

definition answer :: "world \<Rightarrow> request \<Rightarrow> response option completion" where
  "answer w rq = fst (invoke (ensureClient w) rq)"

text \<open>Concrete inputs for the examples.\<close>

definition sample_row :: obj where
  "sample_row = [(''Id'', JNum 7), (''Name'', JStr ''Jane Doe'')]"

definition flagged_response :: response where
  "flagged_response =
     \<lparr>response.success = False, message = JStr ''stale'', data = Obj (Row sample_row),
      results = None\<rparr>"

definition world_with :: "client \<Rightarrow> world" where
  "world_with c = \<lparr>windowApperSDK = Some c, apperClient = None, sent = [], toasts = []\<rparr>"

definition failure_response :: response where
  "failure_response =
     \<lparr>response.success = False, message = JStr ''Service unavailable'', data = Undef,
      results = None\<rparr>"

definition jane :: obj where
  "jane = [(''fullName'', JStr ''Jane Doe''), (''email'', JStr ''jane@example.com''),
           (''phone'', JStr ''555-0100''), (''role'', JStr ''Engineer''),
           (''departmentId'', JStr ''3''), (''hireDate'', JStr ''2024-01-15''),
           (''status'', JStr ''active'')]"

definition mixed_response :: response where
  "mixed_response =
     \<lparr>response.success = True, message = JUndefined, data = Undef,
      results = Some
        [\<lparr>result.success = False, data = Undef,
          errors = Some [\<lparr>fieldLabel = JStr ''Email'', message = JStr ''already in use''\<rparr>],
          message = JStr ''Record rejected''\<rparr>,
         \<lparr>result.success = True, data = Obj sample_row, errors = None, message = JUndefined\<rparr>,
         \<lparr>result.success = True, data = Obj [(''Id'', JNum 8)], errors = None,
          message = JUndefined\<rparr>]\<rparr>"


definition jane_record :: employee_c where
  "jane_record =
     \<lparr>Name = JStr ''Jane Doe'', first_name_c = JStr ''Jane'', last_name_c = JStr ''Doe'',
      email_c = JStr ''jane@example.com'', phone_c = JStr ''555-0100'',
      role_c = JStr ''Engineer'', department_id_c = Integer 3,
      hire_date_c = JStr ''2024-01-15'', status_c = JStr ''active'', avatar_c = JStr []\<rparr>"


definition jane_modal :: modal where
  "jane_modal = initialModal\<lparr>formData := jane\<rparr>"

definition created_response :: response where
  "created_response =
     \<lparr>response.success = True, message = JUndefined, data = Undef,
      results = Some
        [\<lparr>result.success = True, data = Obj sample_row, errors = None, message = JUndefined\<rparr>]\<rparr>"

section \<open>The service: lazy initialisation and the calls\<close>

lemma toasts_ensureClient [simp]: "toasts (ensureClient w) = toasts w"
  by (simp add: ensureClient_def initializeClient_def split: option.splits)

lemma sent_ensureClient [simp]: "sent (ensureClient w) = sent w"
  by (simp add: ensureClient_def initializeClient_def split: option.splits)

lemma toasts_invoke [simp]: "toasts (snd (invoke w rq)) = toasts w"
  by (simp add: invoke_def split: option.splits)

lemma getById_cases:
  "getById w rid =
     (case answer w (GetRecordById tableName rid employee_fields) of
        Throws e \<Rightarrow> catch_block e Null
      | Returns None \<Rightarrow> Returns Null
      | Returns (Some resp) \<Rightarrow>
          (case response.data resp of Obj d \<Rightarrow> Returns (Obj d) | _ \<Rightarrow> Returns Null),
      snd (invoke (ensureClient w) (GetRecordById tableName rid employee_fields)))"
  by (simp add: getById_def answer_def split_beta
      split: completion.splits option.splits js.splits)

lemma getAll_cases:
  "getAll w =
     (let w' = snd (invoke (ensureClient w) (FetchRecords tableName employee_fields)) in
      case answer w (FetchRecords tableName employee_fields) of
        Throws e \<Rightarrow> (catch_block e (Rows []), w')
      | Returns None \<Rightarrow> (Returns (Rows []), w')
      | Returns (Some resp) \<Rightarrow>
          if response.success resp
          then (Returns (case response.data resp of Obj d \<Rightarrow> d | _ \<Rightarrow> Rows []), w')
          else (Returns (Rows []), toast_error (response.message resp) w'))"
  by (simp add: getAll_def answer_def split_beta catch_block_def Let_def
      split: completion.splits option.splits js.splits)

lemma create_cases:
  "create w d =
     (case employee_record d of
        Throws e \<Rightarrow> (catch_block e Null, ensureClient w)
      | Returns rec \<Rightarrow>
          (let w' = snd (invoke (ensureClient w) (CreateRecord tableName [rec])) in
           case answer w (CreateRecord tableName [rec]) of
             Throws e \<Rightarrow> (catch_block e Null, w')
           | Returns None \<Rightarrow> (Returns Null, w')
           | Returns (Some resp) \<Rightarrow> record_response resp w'))"
  by (simp add: create_def answer_def split_beta catch_block_def Let_def
      split: completion.splits option.splits)

lemma update_cases:
  "update_employee w rid d =
     (case employee_record d of
        Throws e \<Rightarrow> (catch_block e Null, ensureClient w)
      | Returns rec \<Rightarrow>
          (let w' = snd (invoke (ensureClient w) (UpdateRecord tableName [(rid, rec)])) in
           case answer w (UpdateRecord tableName [(rid, rec)]) of
             Throws e \<Rightarrow> (catch_block e Null, w')
           | Returns None \<Rightarrow> (Returns Null, w')
           | Returns (Some resp) \<Rightarrow> record_response resp w'))"
  by (simp add: update_employee_def answer_def split_beta catch_block_def Let_def
      split: completion.splits option.splits)

lemma delete_cases:
  "delete_employee w rid =
     (let w' = snd (invoke (ensureClient w) (DeleteRecord tableName [rid])) in
      case answer w (DeleteRecord tableName [rid]) of
        Throws e \<Rightarrow> (catch_block e False, w')
      | Returns None \<Rightarrow> (Returns False, w')
      | Returns (Some resp) \<Rightarrow>
          if \<not> response.success resp then (Returns False, toast_error (response.message resp) w')
          else (case response.results resp of
                  None \<Rightarrow> (Returns False, w')
                | Some rs \<Rightarrow>
                    (Returns (\<exists>r \<in> set rs. result.success r),
                     w'\<lparr>toasts := toasts w' @ concat (map failed_deletion_toasts
                           (filter (\<lambda>r. \<not> result.success r) rs))\<rparr>)))"
  by (simp add: delete_employee_def answer_def split_beta catch_block_def Let_def filter_empty_conv
      split: completion.splits option.splits)

lemma employee_record_throws: "employee_record d = Throws e \<Longrightarrow> e = TypeError"
  by (auto simp add: employee_record_def first_name_value_def last_name_value_def split_fullName_def
      split: completion.splits if_splits jsval.splits option.splits)

lemma catch_block_sentinel: "e \<noteq> NullishRejection \<Longrightarrow> catch_block e s = Returns s"
  by (cases e) (simp_all add: catch_block_def)

lemma record_response_failure:
  "\<not> response.success resp \<Longrightarrow> fst (record_response resp w) = Returns Null"
  by (simp add: record_response_def)

text \<open>
  The only exception that leaves an operation is the \<open>TypeError\<close> that its \<open>catch\<close>
  block raises on a \<open>null\<close> or \<open>undefined\<close> rejection of the SDK.
\<close>

lemma catch_block_throws:
  "catch_block e s = Throws x \<longleftrightarrow> e = NullishRejection \<and> x = TypeError"
  by (cases e) (auto simp add: catch_block_def)

lemma record_response_returns: "\<exists>v. fst (record_response resp w) = Returns v"
  by (simp add: record_response_def Let_def split: option.splits)

lemma getAll_throws:
  "fst (getAll w) = Throws x \<Longrightarrow>
   answer w (FetchRecords tableName employee_fields) = Throws NullishRejection \<and> x = TypeError"
  by (auto simp add: getAll_cases Let_def catch_block_throws
      split: completion.splits option.splits if_splits)

lemma getById_throws:
  "fst (getById w rid) = Throws x \<Longrightarrow>
   answer w (GetRecordById tableName rid employee_fields) = Throws NullishRejection \<and> x = TypeError"
  by (auto simp add: getById_cases catch_block_throws
      split: completion.splits option.splits js.splits)

lemma create_throws:
  assumes "fst (create w d) = Throws x"
  shows "(\<exists>rec. employee_record d = Returns rec \<and>
      answer w (CreateRecord tableName [rec]) = Throws NullishRejection) \<and> x = TypeError"
proof (cases "employee_record d")
  case (Throws e)
  then have "e = TypeError" by (rule employee_record_throws)
  with Throws assms show ?thesis
    by (simp add: create_cases catch_block_def)
next
  case (Returns rec)
  show ?thesis
  proof (cases "answer w (CreateRecord tableName [rec])")
    case (Throws e)
    with Returns assms show ?thesis
      by (simp add: create_cases Let_def catch_block_throws)
  next
    case answered: (Returns r)
    have "\<exists>v. fst (create w d) = Returns v"
      using Returns answered record_response_returns
      by (cases r) (simp_all add: create_cases Let_def)
    with assms show ?thesis by auto
  qed
qed

lemma update_throws:
  assumes "fst (update_employee w rid d) = Throws x"
  shows "(\<exists>rec. employee_record d = Returns rec \<and>
      answer w (UpdateRecord tableName [(rid, rec)]) = Throws NullishRejection) \<and>
   x = TypeError"
proof (cases "employee_record d")
  case (Throws e)
  then have "e = TypeError" by (rule employee_record_throws)
  with Throws assms show ?thesis
    by (simp add: update_cases catch_block_def)
next
  case (Returns rec)
  show ?thesis
  proof (cases "answer w (UpdateRecord tableName [(rid, rec)])")
    case (Throws e)
    with Returns assms show ?thesis
      by (simp add: update_cases Let_def catch_block_throws)
  next
    case answered: (Returns r)
    have "\<exists>v. fst (update_employee w rid d) = Returns v"
      using Returns answered record_response_returns
      by (cases r) (simp_all add: update_cases Let_def)
    with assms show ?thesis by auto
  qed
qed

lemma delete_throws:
  "fst (delete_employee w rid) = Throws x \<Longrightarrow>
   answer w (DeleteRecord tableName [rid]) = Throws NullishRejection \<and> x = TypeError"
  by (auto simp add: delete_cases Let_def catch_block_throws
      split: completion.splits option.splits if_splits)

section \<open>getById\<close>

text \<open>
  C8. getById never emits a toast and never looks at the success flag: it returns
  \<open>response.data\<close> whenever the response is there and carries data, whatever the flag
  says, and \<open>null\<close> when the response or its data is absent. Rewriting the flag of
  every answer of the store to any value \<open>b\<close> does not change what getById returns.
\<close>

theorem getById_ignores_success_flag:
  "toasts (snd (getById w rid)) = toasts w \<and>
   (\<forall>resp d. answer w (GetRecordById tableName rid employee_fields) = Returns (Some resp) \<and>
        response.data resp = Obj d \<longrightarrow> fst (getById w rid) = Returns (Obj d)) \<and>
   (answer w (GetRecordById tableName rid employee_fields) = Returns None \<longrightarrow>
        fst (getById w rid) = Returns Null) \<and>
   (\<forall>resp. answer w (GetRecordById tableName rid employee_fields) = Returns (Some resp) \<and>
        (response.data resp = Undef \<or> response.data resp = Null) \<longrightarrow>
        fst (getById w rid) = Returns Null) \<and>
   fst (getById (w\<lparr>apperClient := Some (\<lambda>rq. case c rq of
            Returns (Some r) \<Rightarrow> Returns (Some (r\<lparr>response.success := b\<rparr>)) | x \<Rightarrow> x)\<rparr>) rid)
     = fst (getById (w\<lparr>apperClient := Some c\<rparr>) rid)"
proof (intro conjI allI impI)
  show "toasts (snd (getById w rid)) = toasts w"
    by (simp add: getById_cases)
next
  fix resp d
  assume "answer w (GetRecordById tableName rid employee_fields) = Returns (Some resp) \<and>
          response.data resp = Obj d"
  then show "fst (getById w rid) = Returns (Obj d)"
    by (simp add: getById_cases)
next
  assume "answer w (GetRecordById tableName rid employee_fields) = Returns None"
  then show "fst (getById w rid) = Returns Null"
    by (simp add: getById_cases)
next
  fix resp
  assume "answer w (GetRecordById tableName rid employee_fields) = Returns (Some resp) \<and>
          (response.data resp = Undef \<or> response.data resp = Null)"
  then show "fst (getById w rid) = Returns Null"
    by (auto simp add: getById_cases)
next
  show "fst (getById (w\<lparr>apperClient := Some (\<lambda>rq. case c rq of
            Returns (Some r) \<Rightarrow> Returns (Some (r\<lparr>response.success := b\<rparr>)) | x \<Rightarrow> x)\<rparr>) rid)
     = fst (getById (w\<lparr>apperClient := Some c\<rparr>) rid)"
    by (simp add: getById_cases answer_def ensureClient_def invoke_def
        split: completion.splits option.splits js.splits)
qed

theorem getById_ignores_success_flag_witness:
  "fst (getById (world_with (\<lambda>rq. Returns (Some flagged_response))) (JNum 7))
     = Returns (Obj (Row sample_row))
   \<and> \<not> response.success flagged_response
   \<and> toasts (snd (getById (world_with (\<lambda>rq. Returns (Some flagged_response))) (JNum 7))) = []"
  using getById_ignores_success_flag
    [of "world_with (\<lambda>rq. Returns (Some flagged_response))" "JNum 7"]
  by (simp add: answer_def world_with_def ensureClient_def initializeClient_def invoke_def
      flagged_response_def)

section \<open>Failures and sentinels\<close>

text \<open>
  C1, as the code has it. When the call of the SDK throws an error object (any value
  other than \<open>null\<close> or \<open>undefined\<close>, a \<open>TypeError\<close> of the runtime included), every
  operation returns its sentinel: the empty list for getAll, \<open>null\<close> for getById,
  create and update, \<open>false\<close> for delete. When the response reports failure (success
  flag false), getAll, create, update and delete return their sentinel; getById returns
  \<open>null\<close> when that response carries no data. create and update also return \<open>null\<close>
  when building the record raises. In all these cases the operation returns, it does not
  throw.
\<close>

theorem failure_gives_sentinel:
  "(\<forall>e. answer w (FetchRecords tableName employee_fields) = Throws e \<and> e \<noteq> NullishRejection
        \<longrightarrow> fst (getAll w) = Returns (Rows [])) \<and>
   (\<forall>resp. answer w (FetchRecords tableName employee_fields) = Returns (Some resp) \<and>
        \<not> response.success resp \<longrightarrow> fst (getAll w) = Returns (Rows [])) \<and>
   (\<forall>e. answer w (GetRecordById tableName rid employee_fields) = Throws e \<and> e \<noteq> NullishRejection
        \<longrightarrow> fst (getById w rid) = Returns Null) \<and>
   (\<forall>resp. answer w (GetRecordById tableName rid employee_fields) = Returns (Some resp) \<and>
        \<not> response.success resp \<and> (response.data resp = Undef \<or> response.data resp = Null)
        \<longrightarrow> fst (getById w rid) = Returns Null) \<and>
   (\<forall>e. employee_record d = Throws e \<longrightarrow>
        fst (create w d) = Returns Null \<and> fst (update_employee w rid d) = Returns Null) \<and>
   (\<forall>rec e. employee_record d = Returns rec \<and>
        answer w (CreateRecord tableName [rec]) = Throws e \<and> e \<noteq> NullishRejection
        \<longrightarrow> fst (create w d) = Returns Null) \<and>
   (\<forall>rec resp. employee_record d = Returns rec \<and>
        answer w (CreateRecord tableName [rec]) = Returns (Some resp) \<and> \<not> response.success resp
        \<longrightarrow> fst (create w d) = Returns Null) \<and>
   (\<forall>rec e. employee_record d = Returns rec \<and>
        answer w (UpdateRecord tableName [(rid, rec)]) = Throws e \<and> e \<noteq> NullishRejection
        \<longrightarrow> fst (update_employee w rid d) = Returns Null) \<and>
   (\<forall>rec resp. employee_record d = Returns rec \<and>
        answer w (UpdateRecord tableName [(rid, rec)]) = Returns (Some resp) \<and>
        \<not> response.success resp
        \<longrightarrow> fst (update_employee w rid d) = Returns Null) \<and>
   (\<forall>e. answer w (DeleteRecord tableName [rid]) = Throws e \<and> e \<noteq> NullishRejection
        \<longrightarrow> fst (delete_employee w rid) = Returns False) \<and>
   (\<forall>resp. answer w (DeleteRecord tableName [rid]) = Returns (Some resp) \<and>
        \<not> response.success resp \<longrightarrow> fst (delete_employee w rid) = Returns False)"
proof (intro conjI allI impI; (elim conjE)?)
  fix e
  assume "answer w (FetchRecords tableName employee_fields) = Throws e" "e \<noteq> NullishRejection"
  then show "fst (getAll w) = Returns (Rows [])"
    by (simp add: getAll_cases catch_block_sentinel)
next
  fix resp
  assume "answer w (FetchRecords tableName employee_fields) = Returns (Some resp)"
    "\<not> response.success resp"
  then show "fst (getAll w) = Returns (Rows [])"
    by (simp add: getAll_cases)
next
  fix e
  assume "answer w (GetRecordById tableName rid employee_fields) = Throws e" "e \<noteq> NullishRejection"
  then show "fst (getById w rid) = Returns Null"
    by (simp add: getById_cases catch_block_sentinel)
next
  fix resp
  assume "answer w (GetRecordById tableName rid employee_fields) = Returns (Some resp)"
    "response.data resp = Undef \<or> response.data resp = Null"
  then show "fst (getById w rid) = Returns Null"
    by (auto simp add: getById_cases)
next
  fix e
  assume "employee_record d = Throws e"
  then show "fst (create w d) = Returns Null"
    using employee_record_throws [of d e] by (simp add: create_cases catch_block_def)
next
  fix e
  assume "employee_record d = Throws e"
  then show "fst (update_employee w rid d) = Returns Null"
    using employee_record_throws [of d e] by (simp add: update_cases catch_block_def)
next
  fix rec e
  assume "employee_record d = Returns rec"
    "answer w (CreateRecord tableName [rec]) = Throws e" "e \<noteq> NullishRejection"
  then show "fst (create w d) = Returns Null"
    by (simp add: create_cases catch_block_sentinel)
next
  fix rec resp
  assume "employee_record d = Returns rec"
    "answer w (CreateRecord tableName [rec]) = Returns (Some resp)" "\<not> response.success resp"
  then show "fst (create w d) = Returns Null"
    by (simp add: create_cases record_response_failure)
next
  fix rec e
  assume "employee_record d = Returns rec"
    "answer w (UpdateRecord tableName [(rid, rec)]) = Throws e" "e \<noteq> NullishRejection"
  then show "fst (update_employee w rid d) = Returns Null"
    by (simp add: update_cases catch_block_sentinel)
next
  fix rec resp
  assume "employee_record d = Returns rec"
    "answer w (UpdateRecord tableName [(rid, rec)]) = Returns (Some resp)"
    "\<not> response.success resp"
  then show "fst (update_employee w rid d) = Returns Null"
    by (simp add: update_cases record_response_failure)
next
  fix e
  assume "answer w (DeleteRecord tableName [rid]) = Throws e" "e \<noteq> NullishRejection"
  then show "fst (delete_employee w rid) = Returns False"
    by (simp add: delete_cases catch_block_sentinel)
next
  fix resp
  assume "answer w (DeleteRecord tableName [rid]) = Returns (Some resp)" "\<not> response.success resp"
  then show "fst (delete_employee w rid) = Returns False"
    by (simp add: delete_cases)
qed

lemma answer_world_with: "answer (world_with c) rq = c rq"
  by (simp add: answer_def world_with_def ensureClient_def initializeClient_def invoke_def)

lemma employee_record_jane: "employee_record jane = Returns jane_record"
  by code_simp

lemma employee_record_numeric_name:
  "employee_record [(''fullName'', JNum 5)] = Throws TypeError"
  by code_simp

theorem failure_gives_sentinel_witness:
  "fst (getAll (world_with (\<lambda>rq. Throws ErrorRejection))) = Returns (Rows []) \<and>
   fst (getAll (world_with (\<lambda>rq. Returns (Some failure_response)))) = Returns (Rows []) \<and>
   fst (getById (world_with (\<lambda>rq. Throws ErrorRejection)) (JNum 7)) = Returns Null \<and>
   fst (getById (world_with (\<lambda>rq. Returns (Some failure_response))) (JNum 7)) = Returns Null \<and>
   fst (create (world_with (\<lambda>rq. Throws ErrorRejection)) jane) = Returns Null \<and>
   fst (create (world_with (\<lambda>rq. Returns (Some failure_response))) jane) = Returns Null \<and>
   fst (update_employee (world_with (\<lambda>rq. Throws ErrorRejection)) (JNum 7) jane) = Returns Null \<and>
   fst (update_employee (world_with (\<lambda>rq. Returns (Some failure_response))) (JNum 7) jane) = Returns Null \<and>
   fst (delete_employee (world_with (\<lambda>rq. Throws ErrorRejection)) (JNum 7)) = Returns False \<and>
   fst (delete_employee (world_with (\<lambda>rq. Returns (Some failure_response))) (JNum 7)) = Returns False \<and>
   fst (create (world_with (\<lambda>rq. Throws ErrorRejection)) [(''fullName'', JNum 5)]) = Returns Null"
  using failure_gives_sentinel [of "world_with (\<lambda>rq. Throws ErrorRejection)" "JNum 7" jane]
    failure_gives_sentinel [of "world_with (\<lambda>rq. Returns (Some failure_response))" "JNum 7" jane]
    failure_gives_sentinel [of "world_with (\<lambda>rq. Throws ErrorRejection)" "JNum 7" "[(''fullName'', JNum 5)]"]
  by (simp add: answer_world_with employee_record_jane employee_record_numeric_name
      failure_response_def)

text \<open>
  The claim as stated fails for getById: a response whose success flag is false and that
  carries data is returned as it is, not replaced by \<open>null\<close>.
\<close>

theorem getById_failure_flag_counterexample:
  "answer (world_with (\<lambda>rq. Returns (Some flagged_response)))
       (GetRecordById tableName (JNum 7) employee_fields) = Returns (Some flagged_response) \<and>
   \<not> response.success flagged_response \<and>
   fst (getById (world_with (\<lambda>rq. Returns (Some flagged_response))) (JNum 7)) \<noteq> Returns Null"
  by (simp add: getById_cases answer_world_with flagged_response_def)

section \<open>create and update: the record returned\<close>

lemma find_filter_conv:
  "find P xs = (case filter P xs of [] \<Rightarrow> None | x # _ \<Rightarrow> Some x)"
  by (induction xs) auto

lemma record_response_first_success:
  assumes "response.success resp" "response.results resp = Some rs"
    "find result.success rs = Some r"
  shows "fst (record_response resp w) = Returns (result.data r)"
  using assms by (simp add: record_response_def Let_def find_filter_conv split: list.splits)

text \<open>
  C2. When the store answers create (or update) with overall success and a results
  array, and the first entry of the array with success true carries the record \<open>dta\<close>,
  the operation returns exactly \<open>dta\<close>.
\<close>

theorem create_update_pass_through:
  assumes "employee_record d = Returns rec"
    and "response.success resp"
    and "response.results resp = Some rs"
    and "find result.success rs = Some r"
    and "result.data r = Obj dta"
  shows "(answer w (CreateRecord tableName [rec]) = Returns (Some resp)
            \<longrightarrow> fst (create w d) = Returns (Obj dta)) \<and>
         (answer w (UpdateRecord tableName [(rid, rec)]) = Returns (Some resp)
            \<longrightarrow> fst (update_employee w rid d) = Returns (Obj dta))"
  using assms record_response_first_success [of resp rs r]
  by (simp add: create_cases update_cases)

lemma toasts_world_with [simp]: "toasts (world_with c) = []"
  by (simp add: world_with_def)

lemma sent_world_with [simp]: "sent (world_with c) = []"
  by (simp add: world_with_def)

lemma mixed_response_first:
  "find result.success (the (response.results mixed_response))
     = Some \<lparr>result.success = True, data = Obj sample_row, errors = None, message = JUndefined\<rparr>"
  by (simp add: mixed_response_def)

theorem create_update_pass_through_witness:
  "fst (create (world_with (\<lambda>rq. Returns (Some mixed_response))) jane) = Returns (Obj sample_row) \<and>
   fst (update_employee (world_with (\<lambda>rq. Returns (Some mixed_response))) (JNum 7) jane)
     = Returns (Obj sample_row) \<and>
   toasts (snd (create (world_with (\<lambda>rq. Returns (Some mixed_response))) jane))
     = [ToastError (JStr ''Email: already in use''), ToastError (JStr ''Record rejected'')]"
proof -
  have "fst (create (world_with (\<lambda>rq. Returns (Some mixed_response))) jane) = Returns (Obj sample_row) \<and>
   fst (update_employee (world_with (\<lambda>rq. Returns (Some mixed_response))) (JNum 7) jane)
     = Returns (Obj sample_row)"
    using create_update_pass_through [OF employee_record_jane, of mixed_response
        "the (response.results mixed_response)"
        "\<lparr>result.success = True, data = Obj sample_row, errors = None, message = JUndefined\<rparr>"
        sample_row "world_with (\<lambda>rq. Returns (Some mixed_response))" "JNum 7"]
      mixed_response_first
    by (simp add: answer_world_with) (simp add: mixed_response_def)
  moreover have "toasts (snd (create (world_with (\<lambda>rq. Returns (Some mixed_response))) jane))
     = [ToastError (JStr ''Email: already in use''), ToastError (JStr ''Record rejected'')]"
    by (simp add: create_cases employee_record_jane answer_world_with record_response_def
        mixed_response_def failed_record_toasts_def Let_def)
  ultimately show ?thesis by simp
qed

section \<open>Splitting the full name\<close>

lemma split_not_Nil [simp]: "split c s \<noteq> []"
  by (induction s) (simp_all add: Let_def)

lemma hd_split: "hd (split c s) = takeWhile (\<lambda>x. x \<noteq> c) s"
  by (induction s) (simp_all add: Let_def)

lemma join_Cons_Cons: "join sep ((x # y) # ys) = x # join sep (y # ys)"
  by (cases ys) simp_all

lemma join_split: "join [c] (split c s) = s"
proof (induction s)
  case Nil
  show ?case by simp
next
  case (Cons x xs)
  obtain y ys where r: "split c xs = y # ys"
    by (cases "split c xs") simp_all
  with Cons show ?case
    by (simp add: Let_def join_Cons_Cons)
qed

lemma join_tl_split: "join [c] (tl (split c s)) = tl (dropWhile (\<lambda>x. x \<noteq> c) s)"
proof (induction s)
  case Nil
  show ?case by simp
next
  case (Cons x xs)
  show ?case
  proof (cases "x = c")
    case True
    then show ?thesis by (simp add: Let_def join_split)
  next
    case False
    with Cons show ?thesis by (simp add: Let_def)
  qed
qed

lemma trim_space [simp]: "trim '' '' = []"
  by (simp add: trim_def is_ws_def)

text \<open>
  The record that create and update build when \<open>first_name_c\<close> and \<open>last_name_c\<close> are
  absent and \<open>fullName\<close> is a string.
\<close>

lemma employee_record_full_name:
  assumes "get d ''first_name_c'' = JUndefined" "get d ''last_name_c'' = JUndefined"
    "get d ''fullName'' = JStr s"
  shows "\<exists>rec. employee_record d = Returns rec \<and>
           Name rec = JStr s \<and>
           first_name_c rec = JStr (takeWhile (\<lambda>x. x \<noteq> CHR '' '') s) \<and>
           last_name_c rec = JStr (tl (dropWhile (\<lambda>x. x \<noteq> CHR '' '') s))"
proof -
  have first: "first_name_value d = Returns (JStr (takeWhile (\<lambda>x. x \<noteq> CHR '' '') s))"
    using assms
    by (cases "split CHR '' '' s")
      (auto simp add: first_name_value_def split_fullName_def index0_def js_or_def
        hd_split [of "CHR '' ''" s, symmetric])
  have "join '' '' (slice1 (split CHR '' '' s)) = tl (dropWhile (\<lambda>x. x \<noteq> CHR '' '') s)"
    using join_tl_split [of "CHR '' ''" s] by (simp add: slice1_def drop_Suc)
  then have last: "last_name_value d = Returns (JStr (tl (dropWhile (\<lambda>x. x \<noteq> CHR '' '') s)))"
    using assms by (auto simp add: last_name_value_def split_fullName_def js_or_def)
  have name: "name_value d = JStr s"
    using assms by (simp add: name_value_def js_or_def)
  show ?thesis
    by (simp add: employee_record_def first last name)
qed

lemma sent_record_response [simp]: "sent (snd (record_response resp w)) = sent w"
  by (simp add: record_response_def toast_error_def Let_def split: option.splits)

lemma sent_invoke:
  "apperClient w = Some c \<Longrightarrow> sent (snd (invoke w rq)) = sent w @ [rq]"
  by (simp add: invoke_def)

lemma create_sends:
  assumes "employee_record d = Returns rec" "apperClient (ensureClient w) = Some c"
  shows "sent (snd (create w d)) = sent w @ [CreateRecord tableName [rec]]"
  using assms sent_invoke [of "ensureClient w" c]
  by (simp add: create_cases Let_def split: completion.splits option.splits)

lemma update_sends:
  assumes "employee_record d = Returns rec" "apperClient (ensureClient w) = Some c"
  shows "sent (snd (update_employee w rid d))
           = sent w @ [UpdateRecord tableName [(rid, rec)]]"
  using assms sent_invoke [of "ensureClient w" c]
  by (simp add: update_cases Let_def split: completion.splits option.splits)

lemma apperClient_world_with: "apperClient (ensureClient (world_with c)) = Some c"
  by (simp add: world_with_def ensureClient_def initializeClient_def)

text \<open>
  C3. When \<open>first_name_c\<close> and \<open>last_name_c\<close> are absent and \<open>fullName\<close> is a string,
  the record that create and update send has \<open>Name\<close> equal to \<open>fullName\<close>,
  \<open>first_name_c\<close> equal to the first token of \<open>fullName.split(' ')\<close> and
  \<open>last_name_c\<close> equal to the other tokens joined by spaces. For a first word \<open>u\<close>
  without spaces followed by a space and a remainder \<open>v\<close>, such as "Jane Doe", these
  are \<open>u\<close> and \<open>v\<close>.
\<close>

theorem full_name_is_split:
  assumes "get d ''first_name_c'' = JUndefined"
    and "get d ''last_name_c'' = JUndefined"
    and "get d ''fullName'' = JStr s"
    and "apperClient (ensureClient w) = Some c"
  shows "\<exists>rec.
      sent (snd (create w d)) = sent w @ [CreateRecord tableName [rec]] \<and>
      sent (snd (update_employee w rid d)) = sent w @ [UpdateRecord tableName [(rid, rec)]] \<and>
      Name rec = JStr s \<and>
      first_name_c rec = JStr (hd (split CHR '' '' s)) \<and>
      last_name_c rec = JStr (join '' '' (slice1 (split CHR '' '' s))) \<and>
      (\<forall>u v. s = u @ '' '' @ v \<and> CHR '' '' \<notin> set u \<longrightarrow>
         first_name_c rec = JStr u \<and> last_name_c rec = JStr v)"
proof -
  from employee_record_full_name [OF assms(1-3)] obtain rec where
    rec: "employee_record d = Returns rec" and
    name: "Name rec = JStr s" and
    first: "first_name_c rec = JStr (takeWhile (\<lambda>x. x \<noteq> CHR '' '') s)" and
    last: "last_name_c rec = JStr (tl (dropWhile (\<lambda>x. x \<noteq> CHR '' '') s))"
    by blast
  have two: "takeWhile (\<lambda>x. x \<noteq> CHR '' '') (u @ '' '' @ v) = u \<and>
             tl (dropWhile (\<lambda>x. x \<noteq> CHR '' '') (u @ '' '' @ v)) = v"
    if "CHR '' '' \<notin> set u" for u v
    using that by (induction u) auto
  have "join '' '' (slice1 (split CHR '' '' s)) = tl (dropWhile (\<lambda>x. x \<noteq> CHR '' '') s)"
    using join_tl_split [of "CHR '' ''" s] by (simp add: slice1_def drop_Suc)
  then show ?thesis
    using create_sends [OF rec assms(4)] update_sends [OF rec assms(4)] two name first last
    by (intro exI [of _ rec]) (auto simp add: hd_split)
qed

theorem full_name_is_split_witness:
  "\<exists>rec. sent (snd (create (world_with (\<lambda>rq. Throws ErrorRejection)) jane))
           = [CreateRecord tableName [rec]] \<and>
         Name rec = JStr ''Jane Doe'' \<and>
         first_name_c rec = JStr ''Jane'' \<and>
         last_name_c rec = JStr ''Doe''"
  using full_name_is_split [of jane "''Jane Doe''" "world_with (\<lambda>rq. Throws ErrorRejection)"
      "\<lambda>rq. Throws ErrorRejection" "JNum 7"]
  by (simp add: apperClient_world_with) (auto simp add: jane_def get_def slice1_def)

text \<open>
  C9. When \<open>first_name_c\<close> and \<open>last_name_c\<close> are absent and \<open>fullName\<close> is a string
  without spaces, the record that create and update send has \<open>first_name_c\<close> equal to
  that string, \<open>last_name_c\<close> equal to the empty string and \<open>Name\<close> equal to that
  string.
\<close>

theorem single_word_name:
  assumes "get d ''first_name_c'' = JUndefined"
    and "get d ''last_name_c'' = JUndefined"
    and "get d ''fullName'' = JStr s"
    and "CHR '' '' \<notin> set s"
    and "apperClient (ensureClient w) = Some c"
  shows "\<exists>rec.
      sent (snd (create w d)) = sent w @ [CreateRecord tableName [rec]] \<and>
      sent (snd (update_employee w rid d)) = sent w @ [UpdateRecord tableName [(rid, rec)]] \<and>
      Name rec = JStr s \<and>
      first_name_c rec = JStr s \<and>
      last_name_c rec = JStr []"
proof -
  define f where "f = takeWhile (\<lambda>x. x \<noteq> CHR '' '') s"
  define l where "l = tl (dropWhile (\<lambda>x. x \<noteq> CHR '' '') s)"
  from employee_record_full_name [OF assms(1-3)] obtain rec where
    rec: "employee_record d = Returns rec" and
    name: "Name rec = JStr s" and
    first: "first_name_c rec = JStr f" and
    last: "last_name_c rec = JStr l"
    unfolding f_def l_def by blast
  have "dropWhile (\<lambda>x. x \<noteq> CHR '' '') s = []"
    using assms(4) by auto
  then have l: "l = []"
    unfolding l_def by (simp only: list.sel)
  have f: "f = s"
    unfolding f_def using assms(4) by (induction s) auto
  have "Name rec = JStr s \<and> first_name_c rec = JStr s \<and> last_name_c rec = JStr []"
    by (simp add: name first last f l)
  then show ?thesis
    using create_sends [OF rec assms(5)] update_sends [OF rec assms(5)]
    by (intro exI [of _ rec]) simp
qed

theorem single_word_name_witness:
  "\<exists>rec. sent (snd (create (world_with (\<lambda>rq. Throws ErrorRejection)) [(''fullName'', JStr ''Cher'')]))
           = [CreateRecord tableName [rec]] \<and>
         Name rec = JStr ''Cher'' \<and>
         first_name_c rec = JStr ''Cher'' \<and>
         last_name_c rec = JStr []"
  using single_word_name [of "[(''fullName'', JStr ''Cher'')]" "''Cher''"
      "world_with (\<lambda>rq. Throws ErrorRejection)" "\<lambda>rq. Throws ErrorRejection" "JNum 7"]
  by (simp add: apperClient_world_with) (auto simp add: get_def)

section \<open>The department reference\<close>




















text \<open>
  Beyond \<open>2^53\<close> the result is the engine's double for the digits, as for
  \<open>parseInt("9007199254740993")\<close>, which JavaScript evaluates to 9007199254740992.
\<close>

lemma parseInt_beyond_exact:
  "parseInt (JStr ''9007199254740993'') = Rounded 9007199254740993"
  by code_simp







section \<open>The matcher decides the language\<close>

lemma in_conc: "w \<in> conc A B \<longleftrightarrow> (\<exists>a b. w = a @ b \<and> a \<in> A \<and> b \<in> B)"
  by (auto simp add: conc_def)

lemma Nil_in_conc: "[] \<in> conc A B \<longleftrightarrow> [] \<in> A \<and> [] \<in> B"
  by (auto simp add: conc_def)

lemma Cons_in_conc:
  "c # w \<in> conc A B \<longleftrightarrow>
     ([] \<in> A \<and> c # w \<in> B) \<or> (\<exists>a b. c # a \<in> A \<and> b \<in> B \<and> w = a @ b)"
proof
  assume "c # w \<in> conc A B"
  then obtain a b where ab: "c # w = a @ b" "a \<in> A" "b \<in> B"
    by (auto simp add: conc_def)
  show "([] \<in> A \<and> c # w \<in> B) \<or> (\<exists>a b. c # a \<in> A \<and> b \<in> B \<and> w = a @ b)"
  proof (cases a)
    case Nil
    with ab show ?thesis by simp
  next
    case (Cons x a')
    with ab show ?thesis by auto
  qed
next
  assume "([] \<in> A \<and> c # w \<in> B) \<or> (\<exists>a b. c # a \<in> A \<and> b \<in> B \<and> w = a @ b)"
  then show "c # w \<in> conc A B"
  proof
    assume "[] \<in> A \<and> c # w \<in> B"
    then have "[] @ (c # w) \<in> conc A B"
      unfolding conc_def by blast
    then show ?thesis by simp
  next
    assume "\<exists>a b. c # a \<in> A \<and> b \<in> B \<and> w = a @ b"
    then obtain a b where "c # a \<in> A" "b \<in> B" "w = a @ b"
      by blast
    then have "(c # a) @ b \<in> conc A B"
      unfolding conc_def by blast
    with \<open>w = a @ b\<close> show ?thesis by simp
  qed
qed

lemma star_Cons_split:
  assumes "u \<in> star A" "u = c # w"
  shows "\<exists>a b. c # a \<in> A \<and> b \<in> star A \<and> w = a @ b"
  using assms
proof (induction arbitrary: w rule: star.induct)
  case star_empty
  then show ?case by simp
next
  case (star_step a v)
  show ?case
  proof (cases a)
    case Nil
    with star_step show ?thesis by simp
  next
    case (Cons x a')
    with star_step.prems star_step.hyps show ?thesis by auto
  qed
qed

lemma Cons_in_star:
  "c # w \<in> star A \<longleftrightarrow> (\<exists>a b. c # a \<in> A \<and> b \<in> star A \<and> w = a @ b)"
proof
  assume "c # w \<in> star A"
  then show "\<exists>a b. c # a \<in> A \<and> b \<in> star A \<and> w = a @ b"
    by (rule star_Cons_split) simp
next
  assume "\<exists>a b. c # a \<in> A \<and> b \<in> star A \<and> w = a @ b"
  then obtain a b where "c # a \<in> A" "b \<in> star A" "w = a @ b"
    by blast
  then have "(c # a) @ b \<in> star A"
    by (intro star_step)
  with \<open>w = a @ b\<close> show "c # w \<in> star A" by simp
qed

lemma nullable_lang: "nullable r \<longleftrightarrow> [] \<in> lang r"
  by (induction r) (auto simp add: Nil_in_conc intro: star_empty)

lemma deriv_lang: "w \<in> lang (deriv c r) \<longleftrightarrow> c # w \<in> lang r"
proof (induction r arbitrary: w)
  case (Seq r1 r2)
  have step: "w \<in> conc (lang (deriv c r1)) (lang r2) \<longleftrightarrow>
          (\<exists>a b. c # a \<in> lang r1 \<and> b \<in> lang r2 \<and> w = a @ b)"
    unfolding in_conc Seq.IH(1) by blast
  show ?case
  proof (cases "nullable r1")
    case True
    then have "w \<in> lang (deriv c (Seq r1 r2)) \<longleftrightarrow>
        w \<in> conc (lang (deriv c r1)) (lang r2) \<or> w \<in> lang (deriv c r2)"
      by simp
    also have "\<dots> \<longleftrightarrow> ([] \<in> lang r1 \<and> c # w \<in> lang r2) \<or>
          (\<exists>a b. c # a \<in> lang r1 \<and> b \<in> lang r2 \<and> w = a @ b)"
      using True unfolding step Seq.IH(2) nullable_lang by blast
    finally show ?thesis
      by (simp only: lang.simps Cons_in_conc)
  next
    case False
    then have "w \<in> lang (deriv c (Seq r1 r2)) \<longleftrightarrow>
        w \<in> conc (lang (deriv c r1)) (lang r2)"
      by simp
    also have "\<dots> \<longleftrightarrow> ([] \<in> lang r1 \<and> c # w \<in> lang r2) \<or>
          (\<exists>a b. c # a \<in> lang r1 \<and> b \<in> lang r2 \<and> w = a @ b)"
      using False unfolding step nullable_lang by blast
    finally show ?thesis
      by (simp only: lang.simps Cons_in_conc)
  qed
next
  case (Star r)
  have "w \<in> lang (deriv c (Star r)) \<longleftrightarrow> w \<in> conc (lang (deriv c r)) (star (lang r))"
    by simp
  also have "\<dots> \<longleftrightarrow> (\<exists>a b. c # a \<in> lang r \<and> b \<in> star (lang r) \<and> w = a @ b)"
    unfolding in_conc Star.IH by blast
  finally show ?case
    by (simp only: lang.simps Cons_in_star)
next
  case (Atom p)
  show ?case by (cases "p c") auto
next
  case (Alt r1 r2)
  then show ?case by simp
qed simp_all

lemma test_lang: "test r w \<longleftrightarrow> w \<in> lang r"
  by (induction w arbitrary: r) (simp_all add: nullable_lang deriv_lang)

subsection \<open>The language of the email pattern\<close>

lemma star_Atom: "star (lang (Atom p)) = {w. \<forall>c \<in> set w. p c}"
proof (intro set_eqI iffI)
  fix w
  assume "w \<in> star (lang (Atom p))"
  then show "w \<in> {w. \<forall>c \<in> set w. p c}"
    by (induction rule: star.induct) auto
next
  fix w
  assume "w \<in> {w. \<forall>c \<in> set w. p c}"
  then show "w \<in> star (lang (Atom p))"
  proof (induction w)
    case Nil
    show ?case by (rule star_empty)
  next
    case (Cons c w)
    then have "[c] \<in> lang (Atom p)" "w \<in> star (lang (Atom p))"
      by simp_all
    then have "[c] @ w \<in> star (lang (Atom p))"
      by (rule star_step)
    then show ?case by simp
  qed
qed

lemma lang_Plus_Atom: "lang (Plus (Atom p)) = {w. w \<noteq> [] \<and> (\<forall>c \<in> set w. p c)}"
proof -
  have "lang (Plus (Atom p)) = conc (lang (Atom p)) (star (lang (Atom p)))"
    by (simp only: Plus_def lang.simps)
  also have "\<dots> = conc (lang (Atom p)) {w. \<forall>c \<in> set w. p c}"
    by (simp only: star_Atom)
  also have "\<dots> = {w. w \<noteq> [] \<and> (\<forall>c \<in> set w. p c)}"
  proof (intro set_eqI iffI)
    fix w
    assume "w \<in> conc (lang (Atom p)) {w. \<forall>c \<in> set w. p c}"
    then show "w \<in> {w. w \<noteq> [] \<and> (\<forall>c \<in> set w. p c)}"
      by (auto simp add: conc_def)
  next
    fix w
    assume "w \<in> {w. w \<noteq> [] \<and> (\<forall>c \<in> set w. p c)}"
    then obtain c v where w: "w = [c] @ v" and "p c" "\<forall>x \<in> set v. p x"
      by (cases w) auto
    then have "[c] \<in> lang (Atom p)" "v \<in> {w. \<forall>c \<in> set w. p c}"
      by simp_all
    then show "w \<in> conc (lang (Atom p)) {w. \<forall>c \<in> set w. p c}"
      unfolding w in_conc [of "[c] @ v"] by blast
  qed
  finally show ?thesis .
qed

text \<open>
  The pattern accepts exactly the strings \<open>a@b.c\<close> with \<open>a\<close>, \<open>b\<close> and \<open>c\<close> not
  empty and free of white space and of \<open>@\<close>.
\<close>

lemma lang_literal: "lang (Atom (\<lambda>c. c = x)) = {[x]}"
  by auto

lemma test_email_regex:
  "test email_regex s \<longleftrightarrow>
     (\<exists>a b c. s = a @ ''@'' @ b @ ''.'' @ c \<and>
        a \<noteq> [] \<and> b \<noteq> [] \<and> c \<noteq> [] \<and>
        (\<forall>x \<in> set a. not_space_or_at x) \<and>
        (\<forall>x \<in> set b. not_space_or_at x) \<and>
        (\<forall>x \<in> set c. not_space_or_at x))"
  (is "_ \<longleftrightarrow> ?split")
proof -
  let ?P = "{w. w \<noteq> [] \<and> (\<forall>x \<in> set w. not_space_or_at x)}"
  have "test email_regex s \<longleftrightarrow>
          s \<in> conc ?P (conc {''@''} (conc ?P (conc {''.''} ?P)))"
    by (simp only: test_lang email_regex_def lang.simps(5) lang_Plus_Atom lang_literal)
  also have "\<dots> \<longleftrightarrow> ?split"
  proof
    assume "s \<in> conc ?P (conc {''@''} (conc ?P (conc {''.''} ?P)))"
    then obtain a r1 where 1: "s = a @ r1" "a \<in> ?P" "r1 \<in> conc {''@''} (conc ?P (conc {''.''} ?P))"
      unfolding in_conc [of s] by blast
    from 1(3) obtain r2 where 2: "r1 = ''@'' @ r2" "r2 \<in> conc ?P (conc {''.''} ?P)"
      unfolding in_conc [of r1] by blast
    from 2(2) obtain b r3 where 3: "r2 = b @ r3" "b \<in> ?P" "r3 \<in> conc {''.''} ?P"
      unfolding in_conc [of r2] by blast
    from 3(3) obtain c where 4: "r3 = ''.'' @ c" "c \<in> ?P"
      unfolding in_conc [of r3] by blast
    from 1 2 3 4 have "s = a @ ''@'' @ b @ ''.'' @ c" "a \<in> ?P" "b \<in> ?P" "c \<in> ?P"
      by simp_all
    then show ?split by blast
  next
    assume ?split
    then obtain a b c where s: "s = a @ ''@'' @ b @ ''.'' @ c"
      and "a \<in> ?P" "b \<in> ?P" "c \<in> ?P"
      by blast
    then have "''.'' @ c \<in> conc {''.''} ?P"
      unfolding in_conc [of "''.'' @ c"] by blast
    with \<open>b \<in> ?P\<close> have "b @ ''.'' @ c \<in> conc ?P (conc {''.''} ?P)"
      unfolding in_conc [of "b @ ''.'' @ c"] by blast
    then have "''@'' @ b @ ''.'' @ c \<in> conc {''@''} (conc ?P (conc {''.''} ?P))"
      unfolding in_conc [of "''@'' @ b @ ''.'' @ c"] by blast
    with \<open>a \<in> ?P\<close> show "s \<in> conc ?P (conc {''@''} (conc ?P (conc {''.''} ?P)))"
      unfolding s in_conc [of "a @ ''@'' @ b @ ''.'' @ c"] by blast
  qed
  finally show ?thesis .
qed

subsection \<open>What the pattern rejects\<close>

lemma not_ws_at: "\<not> is_ws CHR ''@''" "\<not> is_ws CHR ''.''"
  by (simp_all add: is_ws_def)

lemma email_needs_at: "test email_regex s \<Longrightarrow> CHR ''@'' \<in> set s"
  by (auto simp add: test_email_regex)

lemma email_no_space:
  assumes "test email_regex s" "x \<in> set s"
  shows "\<not> is_ws x"
proof -
  from assms(1) obtain a b c where s: "s = a @ ''@'' @ b @ ''.'' @ c"
    and ok: "\<forall>x \<in> set a. not_space_or_at x" "\<forall>x \<in> set b. not_space_or_at x"
      "\<forall>x \<in> set c. not_space_or_at x"
    unfolding test_email_regex by blast
  from assms(2) have "x \<in> set a \<or> x = CHR ''@'' \<or> x \<in> set b \<or> x = CHR ''.'' \<or> x \<in> set c"
    unfolding s by auto
  with ok show ?thesis
    unfolding not_space_or_at_def using not_ws_at by blast
qed

lemma email_one_at: "test email_regex s \<Longrightarrow> length (filter (\<lambda>x. x = CHR ''@'') s) = 1"
proof -
  have none: "filter (\<lambda>x. x = CHR ''@'') w = []" if "\<forall>x \<in> set w. not_space_or_at x" for w
    using that by (induction w) (auto simp add: not_space_or_at_def)
  assume "test email_regex s"
  then obtain a b c where "s = a @ ''@'' @ b @ ''.'' @ c"
    "\<forall>x \<in> set a. not_space_or_at x" "\<forall>x \<in> set b. not_space_or_at x"
    "\<forall>x \<in> set c. not_space_or_at x"
    unfolding test_email_regex by blast
  then show ?thesis
    by (simp add: none)
qed

lemma unique_separator:
  assumes "x1 @ c # y1 = x2 @ c # y2" "c \<notin> set x2" "c \<notin> set y2"
  shows "y1 = y2"
  by (metis assms(3) assms(1) assms(2) append_Cons_eq_iff)

lemma email_domain_dot:
  assumes "test email_regex s" "s = lp @ ''@'' @ dp"
  shows "CHR ''.'' \<in> set dp"
proof -
  from assms(1) obtain a b c where s: "s = a @ ''@'' @ b @ ''.'' @ c"
    and ok: "\<forall>x \<in> set a. not_space_or_at x" "\<forall>x \<in> set b. not_space_or_at x"
      "\<forall>x \<in> set c. not_space_or_at x"
    unfolding test_email_regex by blast
  have no_at: "CHR ''@'' \<notin> set a" "CHR ''@'' \<notin> set (b @ ''.'' @ c)"
    using ok by (auto simp add: not_space_or_at_def)
  have "lp @ CHR ''@'' # dp = a @ CHR ''@'' # (b @ ''.'' @ c)"
    using s assms(2) by simp
  then have "dp = b @ ''.'' @ c"
    using no_at by (rule unique_separator)
  then show ?thesis by simp
qed

section \<open>Validation of the form\<close>

lemma get_update: "get (AList.update k v al) k' = (if k' = k then v else get al k')"
  by (simp add: get_def update_conv')

lemma get_Nil [simp]: "get [] k = JUndefined"
  by (simp add: get_def)

lemma get_Cons: "get ((k, v) # al) k' = (if k' = k then v else get al k')"
  by (simp add: get_def)

lemma get_check_email:
  "get (check_email fd e) k =
     (if k = ''email'' \<and> truthy (get fd ''email'') \<and>
         \<not> test email_regex (to_string (get fd ''email''))
      then JStr ''Please enter a valid email address'' else get e k)"
  by (simp add: check_email_def get_update)

lemma get_require_value:
  "get (require_value fd f msg e) k =
     (if k = f \<and> \<not> truthy (get fd f) then JStr msg else get e k)"
  by (simp add: require_value_def get_update)

lemma get_text_error:
  "get (if t = [] then AList.update f (JStr msg) e else e) k =
     (if k = f \<and> t = [] then JStr msg else get e k)"
  by (simp add: get_update)

lemma trim_empty_iff: "trim s = [] \<longleftrightarrow> (\<forall>x \<in> set s. is_ws x)"
proof -
  have "trim s = [] \<longleftrightarrow> (\<forall>x \<in> set (dropWhile is_ws s). is_ws x)"
    by (simp add: trim_def)
  also have "\<dots> \<longleftrightarrow> dropWhile is_ws s = []"
  proof
    assume all: "\<forall>x \<in> set (dropWhile is_ws s). is_ws x"
    show "dropWhile is_ws s = []"
    proof (rule ccontr)
      assume rest: "dropWhile is_ws s \<noteq> []"
      then have "\<not> is_ws (hd (dropWhile is_ws s))"
        by (rule hd_dropWhile)
      moreover have "hd (dropWhile is_ws s) \<in> set (dropWhile is_ws s)"
        using rest by (rule hd_in_set)
      ultimately show False
        using all by blast
    qed
  next
    assume none: "dropWhile is_ws s = []"
    show "\<forall>x \<in> set (dropWhile is_ws s). is_ws x"
      unfolding none by simp
  qed
  also have "\<dots> \<longleftrightarrow> (\<forall>x \<in> set s. is_ws x)"
    by simp
  finally show ?thesis .
qed

text \<open>
  The errors that \<open>validateForm\<close> collects when the four text fields hold strings (any
  other value makes \<open>trim\<close> raise).
\<close>

lemma validation_errors_strings:
  assumes "get fd ''fullName'' = JStr fn" "get fd ''email'' = JStr em"
    "get fd ''phone'' = JStr ph" "get fd ''role'' = JStr ro"
  shows "\<exists>e1 e2 e3 e4.
     validation_errors fd = Returns
       (check_email fd
         (require_value fd ''hireDate'' ''Hire date is required''
           (require_value fd ''departmentId'' ''Department is required'' e4))) \<and>
     e1 = (if trim fn = [] then AList.update ''fullName'' (JStr ''Full name is required'') []
           else []) \<and>
     e2 = (if trim em = [] then AList.update ''email'' (JStr ''Email is required'') e1 else e1) \<and>
     e3 = (if trim ph = [] then AList.update ''phone'' (JStr ''Phone is required'') e2 else e2) \<and>
     e4 = (if trim ro = [] then AList.update ''role'' (JStr ''Role is required'') e3 else e3)"
  using assms
  by (simp add: validation_errors_def require_text_def trim_method_def and_then_def)

lemma validateForm_errors:
  "validation_errors (formData m) = Returns errs \<Longrightarrow>
   validateForm m = Returns (errs = [], m\<lparr>errors := errs\<rparr>)"
  by (simp add: validateForm_def and_then_def)

lemma handleSubmit_invalid:
  "validation_errors (formData m) = Returns errs \<Longrightarrow> errs \<noteq> [] \<Longrightarrow>
   handleSubmit employee w m = (Returns (), w, m\<lparr>errors := errs\<rparr>)"
  by (simp add: handleSubmit_def validateForm_errors)

text \<open>
  With string text fields, validation returns, and a string that the pattern rejects in
  the email field is reported as such.
\<close>

lemma email_format_error:
  assumes "get (formData m) ''fullName'' = JStr fn" and "get (formData m) ''email'' = JStr em"
    and "get (formData m) ''phone'' = JStr ph" and "get (formData m) ''role'' = JStr ro"
    and "em \<noteq> []" and "\<not> test email_regex em"
  shows "\<exists>errs. validateForm m = Returns (False, m\<lparr>errors := errs\<rparr>) \<and>
           get errs ''email'' = JStr ''Please enter a valid email address''"
proof -
  from validation_errors_strings [OF assms(1-4)]
  obtain e where errs: "validation_errors (formData m) = Returns (check_email (formData m) e)"
    by blast
  have email: "get (check_email (formData m) e) ''email'' = JStr ''Please enter a valid email address''"
    using assms(2,5,6) by (simp add: get_check_email)
  then have "check_email (formData m) e \<noteq> []"
    by auto
  with email show ?thesis
    using validateForm_errors [OF errs] by auto
qed

lemma jane_modal_fields:
  "get (formData (handleChange ''email'' e jane_modal)) ''fullName'' = JStr ''Jane Doe''"
  "get (formData (handleChange ''email'' e jane_modal)) ''email'' = JStr e"
  "get (formData (handleChange ''email'' e jane_modal)) ''phone'' = JStr ''555-0100''"
  "get (formData (handleChange ''email'' e jane_modal)) ''role'' = JStr ''Engineer''"
  by (simp_all add: handleChange_def jane_modal_def initialModal_def jane_def get_update get_def)

text \<open>
  C6. When the email field holds a non-empty string without \<open>@\<close> (and the other text
  fields hold strings, so that validation runs), validateForm records the email-format
  error and returns false.
\<close>

theorem email_without_at_rejected:
  assumes "get (formData m) ''fullName'' = JStr fn" and "get (formData m) ''email'' = JStr em"
    and "get (formData m) ''phone'' = JStr ph" and "get (formData m) ''role'' = JStr ro"
    and "em \<noteq> []" and "CHR ''@'' \<notin> set em"
  shows "\<exists>errs. validateForm m = Returns (False, m\<lparr>errors := errs\<rparr>) \<and>
           get errs ''email'' = JStr ''Please enter a valid email address''"
proof -
  have "\<not> test email_regex em"
    using assms(6) email_needs_at by blast
  with assms(1-5) show ?thesis
    by (rule email_format_error)
qed

theorem email_without_at_rejected_witness:
  "\<exists>errs. validateForm (handleChange ''email'' ''jane.example.com'' jane_modal)
             = Returns (False, handleChange ''email'' ''jane.example.com'' jane_modal\<lparr>errors := errs\<rparr>) \<and>
          get errs ''email'' = JStr ''Please enter a valid email address''"
  using email_without_at_rejected [OF jane_modal_fields, of "''jane.example.com''"]
  by simp

text \<open>
  C10. The email check is stronger than a test for \<open>@\<close>: \<open>a@b\<close> contains \<open>@\<close> and
  is rejected. A non-empty email string that contains white space, or more than one
  \<open>@\<close>, or that has no \<open>.\<close> after an \<open>@\<close>, makes validateForm record the
  email-format error and return false (the other text fields holding strings).
\<close>

theorem email_format_is_strict:
  assumes "get (formData m) ''fullName'' = JStr fn" and "get (formData m) ''email'' = JStr em"
    and "get (formData m) ''phone'' = JStr ph" and "get (formData m) ''role'' = JStr ro"
    and "em \<noteq> []"
    and "(\<exists>x \<in> set em. is_ws x) \<or>
         1 < length (filter (\<lambda>x. x = CHR ''@'') em) \<or>
         (\<exists>lp dp. em = lp @ ''@'' @ dp \<and> CHR ''.'' \<notin> set dp)"
  shows "(\<exists>errs. validateForm m = Returns (False, m\<lparr>errors := errs\<rparr>) \<and>
            get errs ''email'' = JStr ''Please enter a valid email address'') \<and>
         CHR ''@'' \<in> set ''a@b'' \<and> \<not> test email_regex ''a@b''"
proof -
  have "\<not> test email_regex em"
    using assms(6) email_no_space [of em] email_one_at [of em] email_domain_dot [of em]
    by fastforce
  with assms(1-5) have "\<exists>errs. validateForm m = Returns (False, m\<lparr>errors := errs\<rparr>) \<and>
            get errs ''email'' = JStr ''Please enter a valid email address''"
    by (rule email_format_error)
  moreover have "\<not> test email_regex ''a@b''"
    by code_simp
  ultimately show ?thesis by simp
qed


theorem email_format_is_strict_witness:
  "\<exists>errs. validateForm (handleChange ''email'' ''a@b'' jane_modal)
             = Returns (False, handleChange ''email'' ''a@b'' jane_modal\<lparr>errors := errs\<rparr>) \<and>
          get errs ''email'' = JStr ''Please enter a valid email address''"
proof -
  have "''a@b'' = ''a'' @ ''@'' @ ''b'' \<and> CHR ''.'' \<notin> set ''b''"
    by simp
  then have "(\<exists>x \<in> set ''a@b''. is_ws x) \<or>
         1 < length (filter (\<lambda>x. x = CHR ''@'') ''a@b'') \<or>
         (\<exists>lp dp. ''a@b'' = lp @ ''@'' @ dp \<and> CHR ''.'' \<notin> set dp)"
    by blast
  with email_format_is_strict [OF jane_modal_fields, of "''a@b''"] show ?thesis
    by simp
qed

text \<open>The required-field checks, in terms of \<open>trim\<close>.\<close>

lemma required_fields_trim:
  assumes "get (formData m) ''fullName'' = JStr fn" and "get (formData m) ''email'' = JStr em"
    and "get (formData m) ''phone'' = JStr ph" and "get (formData m) ''role'' = JStr ro"
  shows "\<exists>errs valid. validateForm m = Returns (valid, m\<lparr>errors := errs\<rparr>) \<and>
    (trim fn = [] \<longrightarrow> get errs ''fullName'' = JStr ''Full name is required'') \<and>
    (trim em = [] \<longrightarrow> truthy (get errs ''email'')) \<and>
    (trim ph = [] \<longrightarrow> get errs ''phone'' = JStr ''Phone is required'') \<and>
    (trim ro = [] \<longrightarrow> get errs ''role'' = JStr ''Role is required'') \<and>
    (\<not> truthy (get (formData m) ''departmentId'')
       \<longrightarrow> get errs ''departmentId'' = JStr ''Department is required'') \<and>
    (\<not> truthy (get (formData m) ''hireDate'')
       \<longrightarrow> get errs ''hireDate'' = JStr ''Hire date is required'') \<and>
    (trim fn = [] \<or> trim em = [] \<or> trim ph = [] \<or> trim ro = [] \<or>
     \<not> truthy (get (formData m) ''departmentId'') \<or> \<not> truthy (get (formData m) ''hireDate'')
       \<longrightarrow> \<not> valid \<and> handleSubmit employee w m = (Returns (), w, m\<lparr>errors := errs\<rparr>)) \<and>
    (trim fn \<noteq> [] \<and> trim em \<noteq> [] \<and> trim ph \<noteq> [] \<and> trim ro \<noteq> [] \<and>
     truthy (get (formData m) ''departmentId'') \<and> truthy (get (formData m) ''hireDate'') \<and>
     test email_regex em
       \<longrightarrow> valid \<and> errs = [])"
proof -
  let ?fd = "formData m"
  from validation_errors_strings [OF assms] obtain e1 e2 e3 e4 where
    errs: "validation_errors ?fd = Returns
       (check_email ?fd
         (require_value ?fd ''hireDate'' ''Hire date is required''
           (require_value ?fd ''departmentId'' ''Department is required'' e4)))"
      (is "_ = Returns ?errs")
    and e1: "e1 = (if trim fn = [] then AList.update ''fullName'' (JStr ''Full name is required'') []
           else [])"
    and e2: "e2 = (if trim em = [] then AList.update ''email'' (JStr ''Email is required'') e1 else e1)"
    and e3: "e3 = (if trim ph = [] then AList.update ''phone'' (JStr ''Phone is required'') e2 else e2)"
    and e4: "e4 = (if trim ro = [] then AList.update ''role'' (JStr ''Role is required'') e3 else e3)"
    by blast
  note gets = get_check_email get_require_value get_text_error get_Cons
  have fullName: "get ?errs ''fullName'' = JStr ''Full name is required''" if "trim fn = []"
    using that by (simp add: gets e1 e2 e3 e4)
  have email: "truthy (get ?errs ''email'')" if "trim em = []"
    using that by (simp add: gets e1 e2 e3 e4)
  have phone: "get ?errs ''phone'' = JStr ''Phone is required''" if "trim ph = []"
    using that by (simp add: gets e1 e2 e3 e4)
  have role: "get ?errs ''role'' = JStr ''Role is required''" if "trim ro = []"
    using that by (simp add: gets e1 e2 e3 e4)
  have department: "get ?errs ''departmentId'' = JStr ''Department is required''"
    if "\<not> truthy (get ?fd ''departmentId'')"
    using that by (simp add: gets)
  have hireDate: "get ?errs ''hireDate'' = JStr ''Hire date is required''"
    if "\<not> truthy (get ?fd ''hireDate'')"
    using that by (simp add: gets)
  have missing: "?errs \<noteq> []"
    if "trim fn = [] \<or> trim em = [] \<or> trim ph = [] \<or> trim ro = [] \<or>
     \<not> truthy (get ?fd ''departmentId'') \<or> \<not> truthy (get ?fd ''hireDate'')"
  proof
    assume none: "?errs = []"
    have "get ?errs k = JUndefined" for k
      unfolding none by simp
    with that fullName email phone role department hireDate show False
      by (metis jsval.distinct(9) truthy.simps(1))
  qed
  have complete: "?errs = []"
    if "trim fn \<noteq> [] \<and> trim em \<noteq> [] \<and> trim ph \<noteq> [] \<and> trim ro \<noteq> [] \<and>
     truthy (get ?fd ''departmentId'') \<and> truthy (get ?fd ''hireDate'') \<and> test email_regex em"
    using that assms(2) by (simp add: check_email_def require_value_def e1 e2 e3 e4)
  show ?thesis
  proof (intro exI [of _ ?errs] exI [of _ "?errs = []"] conjI impI)
    show "validateForm m = Returns (?errs = [], m\<lparr>errors := ?errs\<rparr>)"
      by (rule validateForm_errors [OF errs])
    show "get ?errs ''fullName'' = JStr ''Full name is required''" if "trim fn = []"
      using that by (rule fullName)
    show "truthy (get ?errs ''email'')" if "trim em = []"
      using that by (rule email)
    show "get ?errs ''phone'' = JStr ''Phone is required''" if "trim ph = []"
      using that by (rule phone)
    show "get ?errs ''role'' = JStr ''Role is required''" if "trim ro = []"
      using that by (rule role)
    show "get ?errs ''departmentId'' = JStr ''Department is required''"
      if "\<not> truthy (get ?fd ''departmentId'')"
      using that by (rule department)
    show "get ?errs ''hireDate'' = JStr ''Hire date is required''"
      if "\<not> truthy (get ?fd ''hireDate'')"
      using that by (rule hireDate)
    show "?errs \<noteq> []"
      if "trim fn = [] \<or> trim em = [] \<or> trim ph = [] \<or> trim ro = [] \<or>
       \<not> truthy (get ?fd ''departmentId'') \<or> \<not> truthy (get ?fd ''hireDate'')"
      using that by (rule missing)
    show "handleSubmit employee w m = (Returns (), w, m\<lparr>errors := ?errs\<rparr>)"
      if "trim fn = [] \<or> trim em = [] \<or> trim ph = [] \<or> trim ro = [] \<or>
       \<not> truthy (get ?fd ''departmentId'') \<or> \<not> truthy (get ?fd ''hireDate'')"
      using errs missing [OF that] by (rule handleSubmit_invalid)
    show "?errs = []" "?errs = []"
      if "trim fn \<noteq> [] \<and> trim em \<noteq> [] \<and> trim ph \<noteq> [] \<and> trim ro \<noteq> [] \<and>
       truthy (get ?fd ''departmentId'') \<and> truthy (get ?fd ''hireDate'') \<and> test email_regex em"
      using that by (rule complete)+
  qed
qed


text \<open>
  C4. With strings in the four text fields: validateForm records an error for the full
  name, email, phone or role when it is empty or only white space, and for the department
  or hire date when it is empty; if any of the six is missing it returns false, and
  handleSubmit returns with the world untouched (no request sent, no toast) and only the
  errors set in the form. When all six are present and the email matches the pattern,
  validateForm returns true with no errors.
\<close>

theorem required_fields:
  assumes "get (formData m) ''fullName'' = JStr fn" and "get (formData m) ''email'' = JStr em"
    and "get (formData m) ''phone'' = JStr ph" and "get (formData m) ''role'' = JStr ro"
  shows "\<exists>errs valid. validateForm m = Returns (valid, m\<lparr>errors := errs\<rparr>) \<and>
    ((\<forall>x \<in> set fn. is_ws x) \<longrightarrow> get errs ''fullName'' = JStr ''Full name is required'') \<and>
    ((\<forall>x \<in> set em. is_ws x) \<longrightarrow> truthy (get errs ''email'')) \<and>
    ((\<forall>x \<in> set ph. is_ws x) \<longrightarrow> get errs ''phone'' = JStr ''Phone is required'') \<and>
    ((\<forall>x \<in> set ro. is_ws x) \<longrightarrow> get errs ''role'' = JStr ''Role is required'') \<and>
    (\<not> truthy (get (formData m) ''departmentId'')
       \<longrightarrow> get errs ''departmentId'' = JStr ''Department is required'') \<and>
    (\<not> truthy (get (formData m) ''hireDate'')
       \<longrightarrow> get errs ''hireDate'' = JStr ''Hire date is required'') \<and>
    ((\<forall>x \<in> set fn. is_ws x) \<or> (\<forall>x \<in> set em. is_ws x) \<or> (\<forall>x \<in> set ph. is_ws x) \<or>
     (\<forall>x \<in> set ro. is_ws x) \<or>
     \<not> truthy (get (formData m) ''departmentId'') \<or> \<not> truthy (get (formData m) ''hireDate'')
       \<longrightarrow> \<not> valid \<and> handleSubmit employee w m = (Returns (), w, m\<lparr>errors := errs\<rparr>)) \<and>
    (\<not> (\<forall>x \<in> set fn. is_ws x) \<and> \<not> (\<forall>x \<in> set em. is_ws x) \<and> \<not> (\<forall>x \<in> set ph. is_ws x) \<and>
     \<not> (\<forall>x \<in> set ro. is_ws x) \<and>
     truthy (get (formData m) ''departmentId'') \<and> truthy (get (formData m) ''hireDate'') \<and>
     test email_regex em
       \<longrightarrow> valid \<and> errs = [])"
  using required_fields_trim [OF assms, of employee w]
  unfolding trim_empty_iff .

lemma validateForm_initial:
  "validateForm initialModal = Returns (False, initialModal\<lparr>errors :=
     [(''fullName'', JStr ''Full name is required''), (''email'', JStr ''Email is required''),
      (''phone'', JStr ''Phone is required''), (''role'', JStr ''Role is required''),
      (''departmentId'', JStr ''Department is required''),
      (''hireDate'', JStr ''Hire date is required'')]\<rparr>)"
  by code_simp

lemma jane_complete:
  "\<not> (\<forall>x \<in> set ''Jane Doe''. is_ws x) \<and> \<not> (\<forall>x \<in> set ''jane@example.com''. is_ws x) \<and>
   \<not> (\<forall>x \<in> set ''555-0100''. is_ws x) \<and> \<not> (\<forall>x \<in> set ''Engineer''. is_ws x) \<and>
   truthy (get (formData jane_modal) ''departmentId'') \<and>
   truthy (get (formData jane_modal) ''hireDate'') \<and> test email_regex ''jane@example.com''"
  by code_simp

lemma initialModal_fields:
  "get (formData initialModal) ''fullName'' = JStr []"
  "get (formData initialModal) ''email'' = JStr []"
  "get (formData initialModal) ''phone'' = JStr []"
  "get (formData initialModal) ''role'' = JStr []"
  by (simp_all add: initialModal_def emptyForm_def get_def)

lemma jane_fields:
  "get (formData jane_modal) ''fullName'' = JStr ''Jane Doe''"
  "get (formData jane_modal) ''email'' = JStr ''jane@example.com''"
  "get (formData jane_modal) ''phone'' = JStr ''555-0100''"
  "get (formData jane_modal) ''role'' = JStr ''Engineer''"
  by (simp_all add: jane_modal_def initialModal_def jane_def get_def)

theorem required_fields_witness:
  "validateForm initialModal = Returns (False, initialModal\<lparr>errors :=
     [(''fullName'', JStr ''Full name is required''), (''email'', JStr ''Email is required''),
      (''phone'', JStr ''Phone is required''), (''role'', JStr ''Role is required''),
      (''departmentId'', JStr ''Department is required''),
      (''hireDate'', JStr ''Hire date is required'')]\<rparr>) \<and>
   handleSubmit Null (world_with (\<lambda>rq. Throws ErrorRejection)) initialModal
     = (Returns (), world_with (\<lambda>rq. Throws ErrorRejection), initialModal\<lparr>errors :=
     [(''fullName'', JStr ''Full name is required''), (''email'', JStr ''Email is required''),
      (''phone'', JStr ''Phone is required''), (''role'', JStr ''Role is required''),
      (''departmentId'', JStr ''Department is required''),
      (''hireDate'', JStr ''Hire date is required'')]\<rparr>) \<and>
   validateForm jane_modal = Returns (True, jane_modal\<lparr>errors := []\<rparr>)"
proof -
  let ?w = "world_with (\<lambda>rq. Throws ErrorRejection)"
  let ?six = "[(''fullName'', JStr ''Full name is required''), (''email'', JStr ''Email is required''),
      (''phone'', JStr ''Phone is required''), (''role'', JStr ''Role is required''),
      (''departmentId'', JStr ''Department is required''),
      (''hireDate'', JStr ''Hire date is required'')]"
  from required_fields [OF initialModal_fields, of Null ?w] obtain errs valid where
    v: "validateForm initialModal = Returns (valid, initialModal\<lparr>errors := errs\<rparr>)" and
    h: "(\<forall>x \<in> set []. is_ws x) \<or> (\<forall>x \<in> set []. is_ws x) \<or> (\<forall>x \<in> set []. is_ws x) \<or>
        (\<forall>x \<in> set []. is_ws x) \<or>
        \<not> truthy (get (formData initialModal) ''departmentId'') \<or>
        \<not> truthy (get (formData initialModal) ''hireDate'')
        \<longrightarrow> \<not> valid \<and>
          handleSubmit Null ?w initialModal = (Returns (), ?w, initialModal\<lparr>errors := errs\<rparr>)"
    by blast
  from v have "errs = modal.errors (snd (case validateForm initialModal of Returns x \<Rightarrow> x))"
    by simp
  then have "errs = ?six"
    by (simp add: validateForm_initial)
  with h have submit:
    "handleSubmit Null ?w initialModal = (Returns (), ?w, initialModal\<lparr>errors := ?six\<rparr>)"
    by simp
  from required_fields [OF jane_fields, of Null ?w] obtain errs' valid' where
    v': "validateForm jane_modal = Returns (valid', jane_modal\<lparr>errors := errs'\<rparr>)" and
    c: "\<not> (\<forall>x \<in> set ''Jane Doe''. is_ws x) \<and> \<not> (\<forall>x \<in> set ''jane@example.com''. is_ws x) \<and>
        \<not> (\<forall>x \<in> set ''555-0100''. is_ws x) \<and> \<not> (\<forall>x \<in> set ''Engineer''. is_ws x) \<and>
        truthy (get (formData jane_modal) ''departmentId'') \<and>
        truthy (get (formData jane_modal) ''hireDate'') \<and> test email_regex ''jane@example.com''
        \<longrightarrow> valid' \<and> errs' = []"
    by blast
  from c jane_complete have "valid' \<and> errs' = []"
    by (rule mp)
  with v' have "validateForm jane_modal = Returns (True, jane_modal\<lparr>errors := []\<rparr>)"
    by simp
  with submit show ?thesis
    by (simp add: validateForm_initial)
qed

section \<open>Closing the form\<close>

lemma handleSubmit_formData: "formData (snd (snd (handleSubmit employee w m))) = formData m"
  by (auto simp add: handleSubmit_def validateForm_def and_then_def Let_def split_beta
      split: completion.splits)

lemma handleClose_resets:
  "formData (handleClose m) = emptyForm \<and> modal.errors (handleClose m) = []"
  by (simp add: handleClose_def)

text \<open>
  C7. handleClose puts the initial empty draft back. handleSubmit does not: after a
  submit whose service call succeeds it has called the parent's \<open>onSuccess\<close> and
  \<open>onClose\<close>, and the form still holds the draft that was submitted.
\<close>

theorem handleSubmit_keeps_draft:
  "fst (handleSubmit Null (world_with (\<lambda>rq. Returns (Some created_response))) jane_modal)
     = Returns () \<and>
   toasts (fst (snd (handleSubmit Null (world_with (\<lambda>rq. Returns (Some created_response)))
      jane_modal))) = [ToastSuccess (JStr ''Employee created successfully'')] \<and>
   parent_calls (snd (snd (handleSubmit Null
      (world_with (\<lambda>rq. Returns (Some created_response))) jane_modal))) = [OnSuccess, OnClose] \<and>
   formData (snd (snd (handleSubmit Null
      (world_with (\<lambda>rq. Returns (Some created_response))) jane_modal))) = jane \<and>
   jane \<noteq> emptyForm \<and>
   formData (handleClose jane_modal) = emptyForm"
  by code_simp

end
